theory Spec2Isabelle
  imports Complex_Main
begin

text \<open>
  A shallow embedding of the enhanced QR code server: the generation, decoding, quality and
  statistics code of \<open>qr-utils.ts\<close>, the schemas of \<open>types.ts\<close> and the tool handlers
  of \<open>index.ts\<close> that the properties below are about. The libraries the code calls
  (QR encoders, image codecs, canvas, file system, clock, UUIDs) are parameters of the
  model.
\<close>

section \<open>Data model (types.ts)\<close>

text \<open>
  JavaScript strings are modelled as \<open>string\<close>; \<open>length\<close> is the source's \<open>.length\<close>.
  JavaScript numbers that the code only compares, adds and subtracts (pixel sizes, margins,
  byte counts, millisecond clock readings, counters) are modelled as \<open>int\<close> or \<open>nat\<close>.
  A field that may be absent (\<open>Partial<...>\<close>, \<open>.optional()\<close>, \<open>?:\<close>) is an \<open>option\<close>.
\<close>

datatype ECLevel = ecL | ecM | ecQ | ecH

datatype QRFormat = PNG | SVG | PDF | JPEG

datatype DotStyle = dot_square | dot_round | dot_diamond

text \<open>\<open>QRConfig\<close> as the generators receive it (\<open>Partial<QRConfig>\<close>).\<close>

record QRConfig =
  size_c :: "int option"
  margin :: "int option"
  errorCorrectionLevel :: "ECLevel option"
  format_c :: "QRFormat option"

text \<open>\<open>QRStyle\<close> (\<open>Partial<QRStyle>\<close>); \<open>logoSize\<close> is a fraction, kept as a rational.\<close>

record QRStyle =
  foregroundColor :: "string option"
  backgroundColor :: "string option"
  logoPath :: "string option"
  logoSize :: "rat option"
  cornerRadius :: "int option"
  dotStyle :: "DotStyle option"
  gradientStart :: "string option"
  gradientEnd :: "string option"
  borderWidth :: "int option"
  borderColor :: "string option"

datatype Security = WEP | WPA | WPA2 | WPA3 | nopass

text \<open>The arguments of the WiFi tool before \<open>WiFiSchema\<close> fills in its defaults.\<close>

record WiFiArgs =
  ssid_arg :: string
  password_arg :: "string option"
  security_arg :: "Security option"
  hidden_arg :: "bool option"

text \<open>\<open>WiFi = z.infer<typeof WiFiSchema>\<close>: \<open>security\<close> and \<open>hidden\<close> carry defaults.\<close>

record WiFi =
  ssid :: string
  password :: "string option"
  security :: Security
  hidden :: bool

datatype Category = business | personal | event | marketing | social

record QRTemplate =
  name_t :: string
  description_t :: string
  style_t :: QRStyle
  config_t :: QRConfig
  category_t :: Category

text \<open>\<open>data?: Buffer | string\<close>\<close>

datatype Payload = Buffer string | Text string

record Metadata =
  generatedAt :: string
  originalContent :: string
  estimatedSize :: nat

record QRGenerationResult =
  success :: bool
  filePath :: "string option"
  data :: "Payload option"
  format_r :: string
  size_r :: nat
  contentType :: string
  metadata :: "Metadata option"
  error_r :: "string option"

datatype Readability = excellent | good | fair | poor

record Quality =
  score :: int
  readability :: Readability
  recommendations :: "string list"

record CodeMetadata =
  version :: int
  errorCorrectionLevel_m :: string
  maskPattern :: int
  modules :: int

record QRAnalysisResult =
  success_a :: bool
  content_a :: "string option"
  format_a :: "string option"
  quality :: "Quality option"
  metadata_a :: "CodeMetadata option"
  error_a :: "string option"

text \<open>
  The error classes. \<open>Error\<close> is a plain JavaScript \<open>Error\<close> (what the external
  libraries and the file system throw); \<open>Thrown\<close> is a thrown value that is not an
  \<open>Error\<close> instance. The \<open>details\<close> argument of the classes is not modelled: no code
  path reads it.
\<close>

datatype exn =
    QRValidationError string
  | QRGenerationError string
  | QRAnalysisError string
  | Error string
  | Thrown

text \<open>\<open>error instanceof Error ? error.message : 'Unknown error'\<close>\<close>

fun error_message :: "exn \<Rightarrow> string" where
  "error_message (QRValidationError m) = m"
| "error_message (QRGenerationError m) = m"
| "error_message (QRAnalysisError m) = m"
| "error_message (Error m) = m"
| "error_message Thrown = ''Unknown error''"

text \<open>The \<open>code\<close> field the \<open>QRError\<close> constructors set; absent on other errors.\<close>

fun error_code :: "exn \<Rightarrow> string option" where
  "error_code (QRValidationError m) = Some ''VALIDATION_ERROR''"
| "error_code (QRGenerationError m) = Some ''GENERATION_ERROR''"
| "error_code (QRAnalysisError m) = Some ''ANALYSIS_ERROR''"
| "error_code (Error m) = None"
| "error_code Thrown = None"

text \<open>The classification in the tool dispatcher's catch block (index.ts).\<close>

fun errorType :: "exn \<Rightarrow> string" where
  "errorType (QRValidationError m) = ''ValidationError''"
| "errorType (QRGenerationError m) = ''GenerationError''"
| "errorType (QRAnalysisError m) = ''AnalysisError''"
| "errorType (Error m) = ''UnknownError''"
| "errorType Thrown = ''UnknownError''"

section \<open>Pure helpers of qr-utils.ts\<close>

subsection \<open>Content validation\<close>

text \<open>
  The characters \<open>String.prototype.trim\<close> strips, as far as they are single bytes:
  tab, line feed, vertical tab, form feed, carriage return, space and no-break space.
\<close>

definition isWhiteSpace :: "char \<Rightarrow> bool" where
  "isWhiteSpace c =
     (c = CHR 0x09 \<or> c = CHR 0x0A \<or> c = CHR 0x0B \<or> c = CHR 0x0C \<or> c = CHR 0x0D
      \<or> c = CHR 0x20 \<or> c = CHR 0xA0)"

definition trim :: "string \<Rightarrow> string" where
  "trim s = rev (dropWhile isWhiteSpace (rev (dropWhile isWhiteSpace s)))"

text \<open>
  \<open>validateContent\<close>: \<open>None\<close> when the content passes, otherwise the error thrown.
  \<open>!content\<close> is true exactly for the empty string.
\<close>

definition validateContent :: "string \<Rightarrow> exn option" where
  "validateContent content =
     (if content = [] \<or> length (trim content) = 0
        then Some (QRValidationError ''Content cannot be empty'')
      else if length content > 4296
        then Some (QRValidationError ''Content exceeds maximum length of 4296 characters'')
      else None)"

subsection \<open>WiFi payload\<close>

fun security_string :: "Security \<Rightarrow> string" where
  "security_string WEP = ''WEP''"
| "security_string WPA = ''WPA''"
| "security_string WPA2 = ''WPA2''"
| "security_string WPA3 = ''WPA3''"
| "security_string nopass = ''nopass''"

text \<open>\<open>WiFiSchema.safeParse\<close> on well-typed arguments: the defaults are filled in.\<close>

definition WiFiSchema_parse :: "WiFiArgs \<Rightarrow> WiFi" where
  "WiFiSchema_parse a =
     \<lparr> ssid = ssid_arg a,
       password = password_arg a,
       security = (case security_arg a of None \<Rightarrow> WPA2 | Some t \<Rightarrow> t),
       hidden = (case hidden_arg a of None \<Rightarrow> False | Some h \<Rightarrow> h) \<rparr>"

text \<open>\<open>wifi.password || ''\<close>: an absent and an empty password both give the empty string.\<close>

definition password_or_empty :: "string option \<Rightarrow> string" where
  "password_or_empty p = (case p of None \<Rightarrow> [] | Some v \<Rightarrow> (if v = [] then [] else v))"

definition buildWiFiContent :: "WiFi \<Rightarrow> string" where
  "buildWiFiContent wifi =
     ''WIFI:T:'' @ security_string (security wifi) @ '';S:'' @ ssid wifi @ '';P:''
       @ password_or_empty (password wifi) @ '';H:''
       @ (if hidden wifi then ''true'' else ''false'') @ '';;''"

subsection \<open>Quality assessment\<close>









section \<open>State and effects\<close>

subsection \<open>The statistics object\<close>

text \<open>
  The private \<open>statistics\<close> field of \<open>QRCodeEnhanced\<close>. \<open>byFormat\<close> and
  \<open>byTemplate\<close> are \<open>Record<string, number>\<close>. The stored \<open>averageSize\<close> and
  \<open>averageGenerationTime\<close> are never written after construction.
\<close>

record Statistics =
  totalGenerated :: nat
  byFormat :: "string \<Rightarrow> nat option"
  byTemplate :: "string \<Rightarrow> nat option"
  averageSize :: int
  averageGenerationTime :: int
  generationTimes :: "int list"
  sizes :: "nat list"
  topContentTypes :: "(string \<times> nat) list"
  lastGenerated :: string

text \<open>\<open>xs.slice(-n)\<close>: the last \<open>n\<close> elements, all of them when there are fewer.\<close>

definition slice_last :: "nat \<Rightarrow> 'a list \<Rightarrow> 'a list" where
  "slice_last n xs = drop (length xs - n) xs"

text \<open>\<open>(record[key] || 0) + 1\<close>\<close>

definition bump :: "(string \<Rightarrow> nat option) \<Rightarrow> string \<Rightarrow> (string \<Rightarrow> nat option)" where
  "bump m k = m(k \<mapsto> (case m k of None \<Rightarrow> 0 | Some n \<Rightarrow> n) + 1)"

text \<open>
  \<open>updateStatistics\<close>; \<open>now\<close> is the value of \<open>new Date().toISOString()\<close> that the
  method reads.
\<close>

definition updateStatistics ::
  "QRGenerationResult \<Rightarrow> int \<Rightarrow> string \<Rightarrow> Statistics \<Rightarrow> Statistics" where
  "updateStatistics result generationTime now st =
    (let st1 = st\<lparr> totalGenerated := totalGenerated st + 1 \<rparr>;
         st2 = st1\<lparr> byFormat := bump (byFormat st1) (format_r result) \<rparr>;
         st3 = st2\<lparr> generationTimes := generationTimes st2 @ [generationTime] \<rparr>;
         st4 = st3\<lparr> sizes := sizes st3 @ [size_r result] \<rparr>;
         st5 = st4\<lparr> lastGenerated := now \<rparr>;
         st6 = (if length (generationTimes st5) > 1000
                  then st5\<lparr> generationTimes := slice_last 1000 (generationTimes st5) \<rparr>
                else st5);
         st7 = (if length (sizes st6) > 1000
                  then st6\<lparr> sizes := slice_last 1000 (sizes st6) \<rparr>
                else st6)
     in st7)"

subsection \<open>The system state\<close>

text \<open>
  Everything a call can change: the two private fields of the \<open>QRCodeEnhanced\<close> object
  (\<open>statistics\<close>, and \<open>templates\<close>, a \<open>Map\<close> kept in insertion order), the regular
  files of the file system (\<open>files\<close>, path to content), the number of readings taken so far
  from the clock and the UUID generator (\<open>ticks\<close>), and the payloads handed so far to the
  external QR encoders (\<open>encoded\<close>, the record of every encode attempt).
\<close>

record sys =
  statistics :: Statistics
  templates :: "(string \<times> QRTemplate) list"
  files :: "string \<Rightarrow> string option"
  ticks :: nat
  encoded :: "string list"

text \<open>
  An asynchronous method is a function from the state to an outcome and the state it leaves
  behind: \<open>Inr\<close> a returned value, \<open>Inl\<close> a thrown error. What was changed before a
  throw stays changed.
\<close>

type_synonym 'a io = "sys \<Rightarrow> (exn + 'a) \<times> sys"

definition io_return :: "'a \<Rightarrow> 'a io" where
  "io_return x = (\<lambda>s. (Inr x, s))"

definition io_throw :: "exn \<Rightarrow> 'a io" where
  "io_throw e = (\<lambda>s. (Inl e, s))"

definition io_bind :: "'a io \<Rightarrow> ('a \<Rightarrow> 'b io) \<Rightarrow> 'b io" where
  "io_bind m f = (\<lambda>s. case m s of (Inl e, s') \<Rightarrow> (Inl e, s') | (Inr x, s') \<Rightarrow> f x s')"

text \<open>\<open>try { m } catch (error) { h error }\<close>\<close>

definition io_catch :: "'a io \<Rightarrow> (exn \<Rightarrow> 'a io) \<Rightarrow> 'a io" where
  "io_catch m h = (\<lambda>s. case m s of (Inl e, s') \<Rightarrow> h e s' | (Inr x, s') \<Rightarrow> (Inr x, s'))"

text \<open>The outcome of a call into a library that has no effect on the state.\<close>

definition io_lift :: "exn + 'a \<Rightarrow> 'a io" where
  "io_lift r = (\<lambda>s. (r, s))"

subsection \<open>External primitives\<close>

text \<open>
  The libraries and the platform the code calls, none of which is part of the repository:
  the environment variable, \<open>uuid\<close>, the clock, \<open>path\<close>, \<open>fs-extra\<close> (whether creating a
  directory or writing a file at a path fails), the encoders \<open>qrcode\<close> and \<open>qrcode-svg\<close>,
  \<open>canvas\<close>, \<open>Jimp\<close> and \<open>jsQR\<close>. The clock and the UUID generator are read by the
  number of readings taken before.
\<close>

record Bitmap =
  data_b :: "nat list"
  width_b :: int
  height_b :: int

record QRCodeData =
  data_q :: string
  version_q :: int
  errorCorrectionLevel_q :: string
  maskPattern_q :: int
  modules_q :: int

datatype DrawOp =
    DrawImage string rat rat rat rat
  | FillRect string rat rat rat rat

record Canvas =
  width_cv :: int
  height_cv :: int
  ops :: "DrawOp list"

record env =
  QR_OUTPUT_DIR :: "string option"
  uuidv4 :: "nat \<Rightarrow> string"
  Date_now :: "nat \<Rightarrow> int"
  Date_toISOString :: "nat \<Rightarrow> string"
  path_join :: "string \<Rightarrow> string \<Rightarrow> string"
  path_dirname :: "string \<Rightarrow> string"
  ensureDir_error :: "string \<Rightarrow> exn option"
  writeFile_error :: "string \<Rightarrow> exn option"
  QRCode_toBuffer :: "string \<Rightarrow> int option \<Rightarrow> int option \<Rightarrow> ECLevel option \<Rightarrow> exn + string"
  QRCodeSVG_svg :: "string \<Rightarrow> int option \<Rightarrow> int option \<Rightarrow> ECLevel option \<Rightarrow> exn + string"
  QRCode_toDataURL ::
    "string \<Rightarrow> int option \<Rightarrow> int option \<Rightarrow> ECLevel option \<Rightarrow> string option
       \<Rightarrow> string option \<Rightarrow> exn + string"
  loadImage :: "string \<Rightarrow> exn + string"
  canvas_toBuffer :: "Canvas \<Rightarrow> string"
  Jimp_read :: "string \<Rightarrow> exn + Bitmap"
  jsQR :: "nat list \<Rightarrow> int \<Rightarrow> int \<Rightarrow> exn + QRCodeData option"

text \<open>One reading of the clock or of the UUID generator.\<close>

definition reading :: "(nat \<Rightarrow> 'a) \<Rightarrow> 'a io" where
  "reading f = (\<lambda>s. (Inr (f (ticks s)), s\<lparr> ticks := Suc (ticks s) \<rparr>))"

text \<open>A call of one of the external QR encoders on \<open>content\<close>, with its outcome.\<close>

definition encoding :: "string \<Rightarrow> exn + 'a \<Rightarrow> 'a io" where
  "encoding content r = (\<lambda>s. (r, s\<lparr> encoded := encoded s @ [content] \<rparr>))"

definition ensureDir :: "env \<Rightarrow> string \<Rightarrow> unit io" where
  "ensureDir env dir =
     (\<lambda>s. case ensureDir_error env dir of Some e \<Rightarrow> (Inl e, s) | None \<Rightarrow> (Inr (), s))"

definition writeFile :: "env \<Rightarrow> string \<Rightarrow> string \<Rightarrow> unit io" where
  "writeFile env file content =
     (\<lambda>s. case writeFile_error env file of
             Some e \<Rightarrow> (Inl e, s)
           | None \<Rightarrow> (Inr (), s\<lparr> files := (files s)(file \<mapsto> content) \<rparr>))"

definition pathExists :: "string \<Rightarrow> sys \<Rightarrow> bool" where
  "pathExists file s = (files s file \<noteq> None)"

section \<open>The generators (qr-utils.ts)\<close>

fun format_string :: "QRFormat \<Rightarrow> string" where
  "format_string PNG = ''png''"
| "format_string SVG = ''svg''"
| "format_string PDF = ''pdf''"
| "format_string JPEG = ''jpeg''"

text \<open>\<open>finalConfig.format || 'png'\<close>\<close>

definition format_or_png :: "QRFormat option \<Rightarrow> string" where
  "format_or_png f = (case f of None \<Rightarrow> ''png'' | Some x \<Rightarrow> format_string x)"

text \<open>\<open>process.env.QR_OUTPUT_DIR || './qr-codes'\<close>\<close>

definition outputDir_of :: "env \<Rightarrow> string" where
  "outputDir_of env =
     (case QR_OUTPUT_DIR env of None \<Rightarrow> ''./qr-codes''
      | Some d \<Rightarrow> (if d = [] then ''./qr-codes'' else d))"

definition generateOutputPath :: "env \<Rightarrow> string \<Rightarrow> string io" where
  "generateOutputPath env fmt =
     io_bind (reading (uuidv4 env)) (\<lambda>uuid.
     io_return (path_join env (outputDir_of env) (''qr-'' @ uuid @ ''.'' @ fmt)))"

definition generatePNG :: "env \<Rightarrow> string \<Rightarrow> QRConfig \<Rightarrow> string \<Rightarrow> QRGenerationResult io" where
  "generatePNG env content config outputPath =
     io_bind (encoding content
               (QRCode_toBuffer env content (size_c config) (margin config)
                  (errorCorrectionLevel config))) (\<lambda>buffer.
     io_bind (writeFile env outputPath buffer) (\<lambda>_.
     io_bind (reading (Date_toISOString env)) (\<lambda>now.
     io_return
       \<lparr> success = True,
         filePath = Some outputPath,
         data = Some (Buffer buffer),
         format_r = ''png'',
         size_r = length buffer,
         contentType = ''image/png'',
         metadata = Some \<lparr> generatedAt = now, originalContent = content,
                            estimatedSize = length buffer \<rparr>,
         error_r = None \<rparr>)))"

text \<open>\<open>padding: config.margin * 10\<close>; the colours are constants of the source.\<close>

definition generateSVG :: "env \<Rightarrow> string \<Rightarrow> QRConfig \<Rightarrow> string \<Rightarrow> QRGenerationResult io" where
  "generateSVG env content config outputPath =
     io_bind (encoding content
               (QRCodeSVG_svg env content (size_c config)
                  (map_option (\<lambda>m. m * 10) (margin config))
                  (errorCorrectionLevel config))) (\<lambda>svgString.
     io_bind (writeFile env outputPath svgString) (\<lambda>_.
     io_bind (reading (Date_toISOString env)) (\<lambda>now.
     io_return
       \<lparr> success = True,
         filePath = Some outputPath,
         data = Some (Text svgString),
         format_r = ''svg'',
         size_r = length svgString,
         contentType = ''image/svg+xml'',
         metadata = Some \<lparr> generatedAt = now, originalContent = content,
                            estimatedSize = length svgString \<rparr>,
         error_r = None \<rparr>)))"

text \<open>The statistics update at the end of a generation.\<close>

definition recordStatistics :: "env \<Rightarrow> QRGenerationResult \<Rightarrow> int \<Rightarrow> unit io" where
  "recordStatistics env result generationTime =
     io_bind (reading (Date_toISOString env)) (\<lambda>now.
     (\<lambda>s. (Inr (),
            s\<lparr> statistics := updateStatistics result generationTime now (statistics s) \<rparr>)))"

definition validating :: "string \<Rightarrow> unit io" where
  "validating content =
     (case validateContent content of Some e \<Rightarrow> io_throw e | None \<Rightarrow> io_return ())"

definition generateBasic :: "env \<Rightarrow> string \<Rightarrow> QRConfig \<Rightarrow> QRGenerationResult io" where
  "generateBasic env content config =
     io_bind (reading (Date_now env)) (\<lambda>startTime.
     io_catch
       (io_bind (validating content) (\<lambda>_.
        io_bind (generateOutputPath env (format_or_png (format_c config))) (\<lambda>outputPath.
        io_bind (ensureDir env (path_dirname env outputPath)) (\<lambda>_.
        io_bind (case format_c config of
                   Some SVG \<Rightarrow> generateSVG env content config outputPath
                 | _ \<Rightarrow> generatePNG env content config outputPath) (\<lambda>result.
        io_bind (reading (Date_now env)) (\<lambda>endTime.
        io_bind (recordStatistics env result (endTime - startTime)) (\<lambda>_.
        io_return result)))))))
       (\<lambda>error. io_throw (QRGenerationError
          (''Failed to generate basic QR code: '' @ error_message error))))"

subsection \<open>Styled generation\<close>

text \<open>\<open>config.size || 300\<close> and \<open>style.logoSize || 0.2\<close>\<close>

definition size_or_300 :: "int option \<Rightarrow> int" where
  "size_or_300 n = (case n of None \<Rightarrow> 300 | Some v \<Rightarrow> (if v = 0 then 300 else v))"

definition logoSize_or_default :: "rat option \<Rightarrow> rat" where
  "logoSize_or_default f = (case f of None \<Rightarrow> 1 / 5 | Some v \<Rightarrow> (if v = 0 then 1 / 5 else v))"

definition color_or_white :: "string option \<Rightarrow> string" where
  "color_or_white c = (case c of None \<Rightarrow> ''#ffffff'' | Some v \<Rightarrow> (if v = [] then ''#ffffff'' else v))"

text \<open>
  The logo step: taken when \<open>style.logoPath\<close> is a non-empty path of an existing file; a
  failure to load the logo is caught and the canvas is left as it was.
\<close>

definition applyLogo :: "env \<Rightarrow> QRStyle \<Rightarrow> Canvas \<Rightarrow> sys \<Rightarrow> Canvas" where
  "applyLogo env style canvas s =
     (case logoPath style of
        None \<Rightarrow> canvas
      | Some p \<Rightarrow>
          (if p = [] then canvas
           else (case files s p of
                   None \<Rightarrow> canvas
                 | Some bytes \<Rightarrow>
                     (case loadImage env bytes of
                        Inl e \<Rightarrow> canvas
                      | Inr logo \<Rightarrow>
                          (let lsize = of_int (width_cv canvas) * logoSize_or_default (logoSize style);
                               x = (of_int (width_cv canvas) - lsize) / 2;
                               y = (of_int (height_cv canvas) - lsize) / 2
                           in canvas\<lparr> ops := ops canvas @
                                [FillRect (color_or_white (backgroundColor style))
                                   (x - 5) (y - 5) (lsize + 10) (lsize + 10),
                                 DrawImage logo x y lsize lsize] \<rparr>)))))"

definition applyAdvancedStyling ::
  "env \<Rightarrow> string \<Rightarrow> QRStyle \<Rightarrow> QRConfig \<Rightarrow> string \<Rightarrow> QRGenerationResult io" where
  "applyAdvancedStyling env baseQR style config outputPath =
     (let canvas = \<lparr> width_cv = size_or_300 (size_c config),
                      height_cv = size_or_300 (size_c config), ops = [] \<rparr>
      in
      io_bind (io_lift (loadImage env baseQR)) (\<lambda>img.
      io_bind (\<lambda>s. (Inr (applyLogo env style
                 (canvas\<lparr> ops := [DrawImage img 0 0 (of_int (width_cv canvas))
                                     (of_int (height_cv canvas))] \<rparr>) s), s)) (\<lambda>canvas'.
      io_bind (writeFile env outputPath (canvas_toBuffer env canvas')) (\<lambda>_.
      io_bind (reading (Date_toISOString env)) (\<lambda>now.
      io_return
        \<lparr> success = True,
          filePath = Some outputPath,
          data = Some (Buffer (canvas_toBuffer env canvas')),
          format_r = ''png'',
          size_r = length (canvas_toBuffer env canvas'),
          contentType = ''image/png'',
          metadata = Some \<lparr> generatedAt = now, originalContent = ''styled content'',
                             estimatedSize = length (canvas_toBuffer env canvas') \<rparr>,
          error_r = None \<rparr>)))))"

definition generateStyled ::
  "env \<Rightarrow> string \<Rightarrow> QRStyle \<Rightarrow> QRConfig \<Rightarrow> QRGenerationResult io" where
  "generateStyled env content style config =
     io_bind (reading (Date_now env)) (\<lambda>startTime.
     io_catch
       (io_bind (validating content) (\<lambda>_.
        io_bind (generateOutputPath env (format_or_png (format_c config))) (\<lambda>outputPath.
        io_bind (ensureDir env (path_dirname env outputPath)) (\<lambda>_.
        io_bind (encoding content
                  (QRCode_toDataURL env content (size_c config) (margin config)
                     (errorCorrectionLevel config) (foregroundColor style)
                     (backgroundColor style))) (\<lambda>baseQR.
        io_bind (applyAdvancedStyling env baseQR style config outputPath) (\<lambda>styledResult.
        io_bind (reading (Date_now env)) (\<lambda>endTime.
        io_bind (recordStatistics env styledResult (endTime - startTime)) (\<lambda>_.
        io_return styledResult))))))))
       (\<lambda>error. io_throw (QRGenerationError
          (''Failed to generate styled QR code: '' @ error_message error))))"

definition generateWiFi :: "env \<Rightarrow> WiFi \<Rightarrow> QRConfig \<Rightarrow> QRGenerationResult io" where
  "generateWiFi env wifi config = generateBasic env (buildWiFiContent wifi) config"

subsection \<open>Templates\<close>

text \<open>\<open>Map.prototype.set\<close>: an existing key keeps its place, a new key goes last.\<close>

fun map_set :: "('k \<times> 'v) list \<Rightarrow> 'k \<Rightarrow> 'v \<Rightarrow> ('k \<times> 'v) list" where
  "map_set [] k v = [(k, v)]"
| "map_set ((k', v') # m) k v = (if k' = k then (k, v) # m else (k', v') # map_set m k v)"

definition no_style :: QRStyle where
  "no_style =
     \<lparr> foregroundColor = None, backgroundColor = None, logoPath = None, logoSize = None,
       cornerRadius = None, dotStyle = None, gradientStart = None, gradientEnd = None,
       borderWidth = None, borderColor = None \<rparr>"

definition no_config :: QRConfig where
  "no_config =
     \<lparr> size_c = None, margin = None, errorCorrectionLevel = None, format_c = None \<rparr>"

definition business_template :: QRTemplate where
  "business_template =
     \<lparr> name_t = ''business'',
       description_t = ''Professional business card style'',
       style_t = no_style\<lparr> foregroundColor := Some ''#1a365d'',
                            backgroundColor := Some ''#ffffff'',
                            cornerRadius := Some 5, dotStyle := Some dot_square,
                            borderWidth := Some 2, borderColor := Some ''#1a365d'' \<rparr>,
       config_t = \<lparr> size_c = Some 300, margin = Some 2, errorCorrectionLevel = Some ecM,
                    format_c = Some PNG \<rparr>,
       category_t = business \<rparr>"

definition social_template :: QRTemplate where
  "social_template =
     \<lparr> name_t = ''social'',
       description_t = ''Colorful social media style'',
       style_t = no_style\<lparr> foregroundColor := Some ''#e53e3e'',
                            backgroundColor := Some ''#fff5f5'',
                            cornerRadius := Some 15, dotStyle := Some dot_round,
                            gradientStart := Some ''#e53e3e'',
                            gradientEnd := Some ''#c53030'' \<rparr>,
       config_t = \<lparr> size_c = Some 400, margin = Some 1, errorCorrectionLevel = Some ecM,
                    format_c = Some PNG \<rparr>,
       category_t = social \<rparr>"

definition initializeDefaultTemplates :: "(string \<times> QRTemplate) list" where
  "initializeDefaultTemplates =
     map_set (map_set [] ''business'' business_template) ''social'' social_template"

text \<open>
  The object as its constructor leaves it, in a file system \<open>fs\<close>; \<open>now\<close> is the
  construction time.
\<close>

definition new_QRCodeEnhanced :: "string \<Rightarrow> (string \<Rightarrow> string option) \<Rightarrow> sys" where
  "new_QRCodeEnhanced now fs =
     \<lparr> statistics =
         \<lparr> totalGenerated = 0, byFormat = Map.empty, byTemplate = Map.empty,
           averageSize = 0, averageGenerationTime = 0, generationTimes = [], sizes = [],
           topContentTypes = [], lastGenerated = now \<rparr>,
       templates = initializeDefaultTemplates,
       files = fs,
       ticks = 0,
       encoded = [] \<rparr>"

text \<open>
  \<open>{ ...template.style, ...overrides }\<close> and \<open>{ ...template.config, ...overrides }\<close>:
  a field the overrides carry wins. The overrides object is given by its style fields and
  its config fields.
\<close>

definition orElse :: "'a option \<Rightarrow> 'a option \<Rightarrow> 'a option" where
  "orElse over base = (case over of None \<Rightarrow> base | Some v \<Rightarrow> Some v)"

definition merge_style :: "QRStyle \<Rightarrow> QRStyle \<Rightarrow> QRStyle" where
  "merge_style base over =
     \<lparr> foregroundColor = orElse (foregroundColor over) (foregroundColor base),
       backgroundColor = orElse (backgroundColor over) (backgroundColor base),
       logoPath = orElse (logoPath over) (logoPath base),
       logoSize = orElse (logoSize over) (logoSize base),
       cornerRadius = orElse (cornerRadius over) (cornerRadius base),
       dotStyle = orElse (dotStyle over) (dotStyle base),
       gradientStart = orElse (gradientStart over) (gradientStart base),
       gradientEnd = orElse (gradientEnd over) (gradientEnd base),
       borderWidth = orElse (borderWidth over) (borderWidth base),
       borderColor = orElse (borderColor over) (borderColor base) \<rparr>"

definition merge_config :: "QRConfig \<Rightarrow> QRConfig \<Rightarrow> QRConfig" where
  "merge_config base over =
     \<lparr> size_c = orElse (size_c over) (size_c base),
       margin = orElse (margin over) (margin base),
       errorCorrectionLevel = orElse (errorCorrectionLevel over) (errorCorrectionLevel base),
       format_c = orElse (format_c over) (format_c base) \<rparr>"

definition generateFromTemplate ::
  "env \<Rightarrow> string \<Rightarrow> string \<Rightarrow> QRStyle \<Rightarrow> QRConfig \<Rightarrow> QRGenerationResult io" where
  "generateFromTemplate env content templateName overStyle overConfig =
     (\<lambda>s. case map_of (templates s) templateName of
             None \<Rightarrow> (Inl (QRValidationError (''Template not found: '' @ templateName)), s)
           | Some template \<Rightarrow>
               io_bind (generateStyled env content
                          (merge_style (style_t template) overStyle)
                          (merge_config (config_t template) overConfig)) (\<lambda>result.
               io_bind (\<lambda>s'. (Inr (),
                          s'\<lparr> statistics := (statistics s')
                               \<lparr> byTemplate := bump (byTemplate (statistics s')) templateName \<rparr> \<rparr>))
                 (\<lambda>_. io_return result)) s)"

subsection \<open>Decoding\<close>

definition decodeFromImage :: "env \<Rightarrow> string \<Rightarrow> QRAnalysisResult io" where
  "decodeFromImage env imagePath =
     io_catch
       (\<lambda>s. case files s imagePath of
               None \<Rightarrow> (Inl (QRAnalysisError (''Image file not found: '' @ imagePath)), s)
             | Some bytes \<Rightarrow>
                 io_bind (io_lift (Jimp_read env bytes)) (\<lambda>image.
                 io_bind (io_lift (jsQR env (data_b image) (width_b image) (height_b image)))
                   (\<lambda>code.
                 io_return
                   (case code of
                      None \<Rightarrow>
                        \<lparr> success_a = False, content_a = None, format_a = None,
                          quality = None, metadata_a = None,
                          error_a = Some ''No QR code found in image'' \<rparr>
                    | Some c \<Rightarrow>
                        \<lparr> success_a = True, content_a = Some (data_q c),
                          format_a = Some ''text'', quality = None,
                          metadata_a = Some
                            \<lparr> version = version_q c,
                              errorCorrectionLevel_m = errorCorrectionLevel_q c,
                              maskPattern = maskPattern_q c, modules = modules_q c \<rparr>,
                          error_a = None \<rparr>))) s)
       (\<lambda>error. io_throw (QRAnalysisError
          (''Failed to decode QR code: '' @ error_message error)))"

section \<open>The tool handlers (index.ts)\<close>

subsection \<open>Schemas\<close>

text \<open>
  \<open>QRConfigSchema.safeParse\<close> on well-typed arguments: \<open>None\<close> when a bound is
  violated, otherwise the configuration with the defaults filled in.
\<close>

definition in_range :: "int \<Rightarrow> int \<Rightarrow> int option \<Rightarrow> bool" where
  "in_range lo hi x = (case x of None \<Rightarrow> True | Some v \<Rightarrow> lo \<le> v \<and> v \<le> hi)"

definition QRConfigSchema_safeParse :: "QRConfig \<Rightarrow> QRConfig option" where
  "QRConfigSchema_safeParse a =
     (if in_range 50 2000 (size_c a) \<and> in_range 0 10 (margin a)
        then Some \<lparr> size_c = orElse (size_c a) (Some 300),
                    margin = orElse (margin a) (Some 1),
                    errorCorrectionLevel = orElse (errorCorrectionLevel a) (Some ecM),
                    format_c = orElse (format_c a) (Some PNG) \<rparr>
      else None)"

text \<open>The colour pattern \<open>/^#[0-9A-Fa-f]{6}$/\<close>.\<close>

definition isHexDigit :: "char \<Rightarrow> bool" where
  "isHexDigit c = (c \<in> set ''0123456789ABCDEFabcdef'')"

definition isHexColor :: "string \<Rightarrow> bool" where
  "isHexColor c = (length c = 7 \<and> hd c = CHR ''#'' \<and> list_all isHexDigit (tl c))"

definition color_ok :: "string option \<Rightarrow> bool" where
  "color_ok c = (case c of None \<Rightarrow> True | Some v \<Rightarrow> isHexColor v)"

definition QRStyleSchema_ok :: "QRStyle \<Rightarrow> bool" where
  "QRStyleSchema_ok st =
     (color_ok (foregroundColor st) \<and> color_ok (backgroundColor st)
      \<and> (case logoSize st of None \<Rightarrow> True | Some v \<Rightarrow> 1 / 10 \<le> v \<and> v \<le> 2 / 5)
      \<and> in_range 0 50 (cornerRadius st)
      \<and> color_ok (gradientStart st) \<and> color_ok (gradientEnd st)
      \<and> in_range 0 20 (borderWidth st) \<and> color_ok (borderColor st))"

record BatchItem =
  content_i :: string
  filename_i :: "string option"
  style_i :: "QRStyle option"

record BatchArgs =
  items :: "BatchItem list"
  outputDir :: "string option"
  format_b :: "QRFormat option"
  baseConfig :: "QRConfig option"

definition BatchQRSchema_ok :: "BatchArgs \<Rightarrow> bool" where
  "BatchQRSchema_ok args =
     (list_all (\<lambda>item. case style_i item of None \<Rightarrow> True | Some st \<Rightarrow> QRStyleSchema_ok st)
        (items args)
      \<and> format_b args \<noteq> Some JPEG
      \<and> (case baseConfig args of None \<Rightarrow> True
          | Some c \<Rightarrow> QRConfigSchema_safeParse c \<noteq> None))"

subsection \<open>Handlers\<close>

text \<open>
  A handler's text answer is a rendering of values it has computed; the model returns
  those values.
\<close>

definition handleGenerateBasic :: "env \<Rightarrow> string \<Rightarrow> QRConfig \<Rightarrow> QRGenerationResult io" where
  "handleGenerateBasic env content args =
     (case QRConfigSchema_safeParse args of
        None \<Rightarrow> io_throw (QRValidationError ''Invalid basic QR configuration'')
      | Some validated \<Rightarrow> generateBasic env content validated)"

text \<open>\<open>args.style || {}\<close> and \<open>args.config || {}\<close>\<close>

definition handleGenerateStyled ::
  "env \<Rightarrow> string \<Rightarrow> QRStyle option \<Rightarrow> QRConfig option \<Rightarrow> QRGenerationResult io" where
  "handleGenerateStyled env content style config =
     generateStyled env content
       (case style of None \<Rightarrow> no_style | Some st \<Rightarrow> st)
       (case config of None \<Rightarrow> no_config | Some c \<Rightarrow> c)"

record BatchEntry =
  index :: nat
  success_e :: bool
  file_e :: "string option"
  error_e :: "string option"

record BatchOutput =
  successful :: nat
  failed :: nat
  outputDir_o :: string
  results_o :: "BatchEntry list"

text \<open>\<open>{ ...args.baseConfig, format: args.format }\<close>\<close>

definition batch_config :: "BatchArgs \<Rightarrow> QRConfig" where
  "batch_config args =
     (case baseConfig args of None \<Rightarrow> no_config | Some c \<Rightarrow> c)\<lparr> format_c := format_b args \<rparr>"

text \<open>
  The value one iteration of the \<open>for\<close> loop pushes: the \<open>try\<close> branch for a
  call that returned, the \<open>catch\<close> branch for one that threw.
\<close>

definition batch_entry :: "nat \<Rightarrow> exn + QRGenerationResult \<Rightarrow> BatchEntry" where
  "batch_entry i outcome =
     (case outcome of
        Inr result \<Rightarrow>
          \<lparr> index = i, success_e = True, file_e = filePath result, error_e = None \<rparr>
      | Inl e \<Rightarrow>
          \<lparr> index = i, success_e = False, file_e = None,
            error_e = Some (error_message e) \<rparr>)"

text \<open>\<open>item.style || {}\<close>\<close>

definition item_style :: "BatchItem \<Rightarrow> QRStyle" where
  "item_style item = (case style_i item of None \<Rightarrow> no_style | Some st \<Rightarrow> st)"

text \<open>
  The \<open>for\<close> loop of \<open>handleGenerateBatch\<close> from index \<open>i\<close> on, over the items still to
  do, with the \<open>results\<close> pushed so far.
\<close>

fun batch_loop ::
  "env \<Rightarrow> BatchArgs \<Rightarrow> nat \<Rightarrow> BatchItem list \<Rightarrow> BatchEntry list \<Rightarrow> sys
     \<Rightarrow> BatchEntry list \<times> sys" where
  "batch_loop env args i [] results s = (results, s)"
| "batch_loop env args i (item # rest) results s =
     (case generateStyled env (content_i item) (item_style item) (batch_config args) s of
        (outcome, s') \<Rightarrow>
          batch_loop env args (Suc i) rest (results @ [batch_entry i outcome]) s')"

definition outputDir_or_default :: "string option \<Rightarrow> string" where
  "outputDir_or_default d =
     (case d of None \<Rightarrow> ''./qr-codes'' | Some v \<Rightarrow> (if v = [] then ''./qr-codes'' else v))"

definition handleGenerateBatch :: "env \<Rightarrow> BatchArgs \<Rightarrow> BatchOutput io" where
  "handleGenerateBatch env args =
     (if \<not> BatchQRSchema_ok args
        then io_throw (QRValidationError ''Invalid batch parameters'')
      else
        io_bind (ensureDir env (outputDir_or_default (outputDir args))) (\<lambda>_.
        (\<lambda>s. case batch_loop env args 0 (items args) [] s of
                (results', s') \<Rightarrow>
                  (Inr \<lparr> successful = length (filter success_e results'),
                         failed = length results' - length (filter success_e results'),
                         outputDir_o = outputDir_or_default (outputDir args),
                         results_o = results' \<rparr>, s'))))"

definition handleDecodeQR :: "env \<Rightarrow> string \<Rightarrow> QRAnalysisResult io" where
  "handleDecodeQR env imagePath = decodeFromImage env imagePath"

subsection \<open>The dispatcher\<close>

text \<open>
  The request handler's \<open>try\<close>/\<open>catch\<close> around a tool handler: a thrown error becomes
  an answer with \<open>isError: true\<close> that carries the error's type and message.
\<close>

datatype 'a ToolAnswer = Answer 'a | IsError string string

definition callTool :: "'a io \<Rightarrow> sys \<Rightarrow> 'a ToolAnswer \<times> sys" where
  "callTool handler s =
     (case handler s of
        (Inr r, s') \<Rightarrow> (Answer r, s')
      | (Inl error, s') \<Rightarrow> (IsError (errorType error) (error_message error), s'))"

section \<open>Sequences of generation calls\<close>

text \<open>
  A client's generation requests to one \<open>QRCodeEnhanced\<close> object, served one after the
  other: each is a call of \<open>generateBasic\<close>, \<open>generateStyled\<close> or
  \<open>generateFromTemplate\<close>. \<open>generations\<close> gives the outcome of every call and the state
  after the last one.
\<close>

datatype Request =
    Basic string QRConfig
  | Styled string QRStyle QRConfig
  | FromTemplate string string QRStyle QRConfig

fun generate :: "env \<Rightarrow> Request \<Rightarrow> QRGenerationResult io" where
  "generate env (Basic content config) = generateBasic env content config"
| "generate env (Styled content style config) = generateStyled env content style config"
| "generate env (FromTemplate content name style config) =
     generateFromTemplate env content name style config"

fun generations ::
  "env \<Rightarrow> Request list \<Rightarrow> sys \<Rightarrow> (exn + QRGenerationResult) list \<times> sys" where
  "generations env [] s = ([], s)"
| "generations env (r # rs) s =
     (case generate env r s of
        (out, s') \<Rightarrow> (case generations env rs s' of (outs, s'') \<Rightarrow> (out # outs, s'')))"

section \<open>Derived forms used in the proofs\<close>

text \<open>
  \<open>generateBasic\<close> and \<open>generateStyled\<close> share one frame: read the clock, run a body
  inside \<open>try\<close>, then read the clock again and record the statistics; a throw of the
  body is rethrown as a \<open>QRGenerationError\<close> whose message starts with \<open>prefix\<close>.
\<close>

definition timed :: "env \<Rightarrow> string \<Rightarrow> QRGenerationResult io \<Rightarrow> QRGenerationResult io" where
  "timed env prefix body =
     io_bind (reading (Date_now env)) (\<lambda>startTime.
     io_catch
       (io_bind body (\<lambda>result.
        io_bind (reading (Date_now env)) (\<lambda>endTime.
        io_bind (recordStatistics env result (endTime - startTime)) (\<lambda>_.
        io_return result))))
       (\<lambda>error. io_throw (QRGenerationError (prefix @ error_message error))))"

definition basic_body :: "env \<Rightarrow> string \<Rightarrow> QRConfig \<Rightarrow> QRGenerationResult io" where
  "basic_body env content config =
     io_bind (validating content) (\<lambda>_.
     io_bind (generateOutputPath env (format_or_png (format_c config))) (\<lambda>outputPath.
     io_bind (ensureDir env (path_dirname env outputPath)) (\<lambda>_.
       (case format_c config of
          Some SVG \<Rightarrow> generateSVG env content config outputPath
        | _ \<Rightarrow> generatePNG env content config outputPath))))"

definition styled_body ::
  "env \<Rightarrow> string \<Rightarrow> QRStyle \<Rightarrow> QRConfig \<Rightarrow> QRGenerationResult io" where
  "styled_body env content style config =
     io_bind (validating content) (\<lambda>_.
     io_bind (generateOutputPath env (format_or_png (format_c config))) (\<lambda>outputPath.
     io_bind (ensureDir env (path_dirname env outputPath)) (\<lambda>_.
     io_bind (encoding content
               (QRCode_toDataURL env content (size_c config) (margin config)
                  (errorCorrectionLevel config) (foregroundColor style)
                  (backgroundColor style))) (\<lambda>baseQR.
       applyAdvancedStyling env baseQR style config outputPath))))"

text \<open>An action that leaves the statistics as they were, and one that leaves the files.\<close>

definition keeps_statistics :: "'a io \<Rightarrow> bool" where
  "keeps_statistics m = (\<forall>s. statistics (snd (m s)) = statistics s)"

text \<open>Whether a call returned.\<close>

definition succeeded :: "exn + 'a \<Rightarrow> bool" where
  "succeeded outcome = (case outcome of Inr r \<Rightarrow> True | Inl e \<Rightarrow> False)"

text \<open>The values of the calls that returned, in order.\<close>

fun returned :: "(exn + 'a) list \<Rightarrow> 'a list" where
  "returned [] = []"
| "returned (Inl e # outs) = returned outs"
| "returned (Inr r # outs) = r # returned outs"

text \<open>
  What one generation call does to the counters: nothing when it threw; when it returned
  \<open>r\<close>, one more in the total, one elapsed time and the size of \<open>r\<close> pushed on the
  windows, each cut to its last 1000 entries.
\<close>

definition stats_step :: "exn + QRGenerationResult \<Rightarrow> Statistics \<Rightarrow> Statistics \<Rightarrow> bool" where
  "stats_step outcome st st' =
     (case outcome of
        Inl e \<Rightarrow> totalGenerated st' = totalGenerated st
                 \<and> generationTimes st' = generationTimes st \<and> sizes st' = sizes st
      | Inr r \<Rightarrow> totalGenerated st' = Suc (totalGenerated st)
                 \<and> (\<exists>t. generationTimes st' = slice_last 1000 (generationTimes st @ [t]))
                 \<and> sizes st' = slice_last 1000 (sizes st @ [size_r r]))"

section \<open>A concrete environment\<close>

text \<open>
  An environment in which every primitive succeeds, for evaluating the model on concrete
  inputs: the encoders return the content under a format tag, image loading and rendering
  pass their input on, and the image decoder finds a symbol exactly in a file that starts
  with the PNG tag.
\<close>

definition render_ops :: "DrawOp list \<Rightarrow> string" where
  "render_ops os =
     concat (map (\<lambda>d. case d of DrawImage i x y w h \<Rightarrow> i | FillRect c x y w h \<Rightarrow> c) os)"

definition test_env :: env where
  "test_env =
     \<lparr> QR_OUTPUT_DIR = None,
       uuidv4 = (\<lambda>n. replicate (Suc n) CHR ''u''),
       Date_now = (\<lambda>n. int n * 10),
       Date_toISOString = (\<lambda>n. replicate (Suc n) CHR ''t''),
       path_join = (\<lambda>d f. d @ ''/'' @ f),
       path_dirname = (\<lambda>p. takeWhile (\<lambda>c. c \<noteq> CHR ''/'') p),
       ensureDir_error = (\<lambda>d. None),
       writeFile_error = (\<lambda>f. None),
       QRCode_toBuffer = (\<lambda>content w m l. Inr (''PNG:'' @ content)),
       QRCodeSVG_svg = (\<lambda>content w p l. Inr (''SVG:'' @ content)),
       QRCode_toDataURL = (\<lambda>content w m l dark light. Inr (''PNG:'' @ content)),
       loadImage = (\<lambda>src. Inr src),
       canvas_toBuffer = (\<lambda>c. render_ops (ops c)),
       Jimp_read = (\<lambda>bytes. Inr \<lparr> data_b = map of_char bytes, width_b = 1,
                                   height_b = int (length bytes) \<rparr>),
       jsQR = (\<lambda>d w h.
                 if take 4 d = map of_char ''PNG:''
                   then Inr (Some \<lparr> data_q = map char_of (drop 4 d), version_q = 1,
                                     errorCorrectionLevel_q = ''M'', maskPattern_q = 0,
                                     modules_q = 21 \<rparr>)
                 else Inr None) \<rparr>"

definition test_sys :: sys where
  "test_sys = new_QRCodeEnhanced ''t0'' (Map.empty(''photo.png'' \<mapsto> ''JFIF''))"

text \<open>
  The concrete state with both rolling windows full: 1000 entries each, the oldest of them
  (70 and 7) different from the rest.
\<close>

definition full_sys :: sys where
  "full_sys =
     test_sys\<lparr> statistics := (statistics test_sys)
       \<lparr> generationTimes := 70 # replicate 999 90, sizes := 7 # replicate 999 9 \<rparr> \<rparr>"

text \<open>
  Three requests, the second with empty content, and a batch of three items, the second
  with empty content.
\<close>

definition test_requests :: "Request list" where
  "test_requests =
     [Basic ''a'' no_config, Basic [] no_config, Styled ''b'' no_style no_config]"

definition test_batch :: BatchArgs where
  "test_batch =
     \<lparr> items = [\<lparr> content_i = ''a'', filename_i = None, style_i = None \<rparr>,
                \<lparr> content_i = [], filename_i = None, style_i = None \<rparr>,
                \<lparr> content_i = ''c'', filename_i = None, style_i = None \<rparr>],
       outputDir = None, format_b = None, baseConfig = None \<rparr>"

section \<open>Laws of the effect combinators\<close>

lemmas io_defs = io_bind_def io_catch_def io_return_def io_throw_def io_lift_def reading_def
  encoding_def ensureDir_def writeFile_def validating_def recordStatistics_def

lemma io_bind_assoc: "io_bind (io_bind m f) g = io_bind m (\<lambda>x. io_bind (f x) g)"
  by (auto simp: io_bind_def fun_eq_iff split: prod.splits sum.splits)

lemma io_bind_Inr:
  "io_bind m f s = (Inr r, s') \<longleftrightarrow> (\<exists>x s1. m s = (Inr x, s1) \<and> f x s1 = (Inr r, s'))"
  by (auto simp: io_bind_def split: prod.splits sum.splits)

text \<open>
  \<open>generateBasic\<close> and \<open>generateStyled\<close> are the shared frame around their bodies, and
  the frame maps the outcome of the body as follows.
\<close>

lemma generateBasic_timed:
  "generateBasic env content config =
     timed env ''Failed to generate basic QR code: '' (basic_body env content config)"
  by (simp add: generateBasic_def timed_def basic_body_def io_bind_assoc)

lemma generateStyled_timed:
  "generateStyled env content style config =
     timed env ''Failed to generate styled QR code: '' (styled_body env content style config)"
  by (simp add: generateStyled_def timed_def styled_body_def io_bind_assoc)

lemma timed_Inl:
  "body (s\<lparr> ticks := Suc (ticks s) \<rparr>) = (Inl e, s1) \<Longrightarrow>
   timed env prefix body s = (Inl (QRGenerationError (prefix @ error_message e)), s1)"
  by (simp add: timed_def io_bind_def io_catch_def io_throw_def reading_def)

lemma timed_Inr:
  "body (s\<lparr> ticks := Suc (ticks s) \<rparr>) = (Inr r, s1) \<Longrightarrow>
   timed env prefix body s =
     (Inr r, s1\<lparr> ticks := Suc (Suc (ticks s1)),
                 statistics := updateStatistics r (Date_now env (ticks s1) - Date_now env (ticks s))
                                 (Date_toISOString env (Suc (ticks s1))) (statistics s1) \<rparr>)"
  by (simp add: timed_def io_bind_def io_catch_def io_return_def reading_def recordStatistics_def)

lemma timed_returns:
  assumes "timed env prefix body s = (Inr r, s')"
  shows "\<exists>s1. body (s\<lparr> ticks := Suc (ticks s) \<rparr>) = (Inr r, s1)"
proof (cases "body (s\<lparr> ticks := Suc (ticks s) \<rparr>)")
  case (Pair out s1)
  show ?thesis
  proof (cases out)
    case (Inl e)
    with Pair timed_Inl [of body s e s1 env prefix] assms show ?thesis by simp
  next
    case (Inr r')
    with Pair timed_Inr [of body s r' s1 env prefix] assms show ?thesis by simp
  qed
qed

lemma generateFromTemplate_fst:
  "map_of (templates s) name = Some t \<Longrightarrow>
   fst (generateFromTemplate env content name os oc s) =
     fst (generateStyled env content (merge_style (style_t t) os)
            (merge_config (config_t t) oc) s)"
  by (simp add: generateFromTemplate_def io_bind_def io_return_def
      split: prod.splits sum.splits)

lemma generateFromTemplate_returns:
  "generateFromTemplate env content name os oc s = (Inr r, s') \<Longrightarrow>
   \<exists>(t::QRTemplate) s1.
     generateStyled env content (merge_style (style_t t) os) (merge_config (config_t t) oc) s
       = (Inr r, s1)"
  by (auto simp: generateFromTemplate_def io_bind_def io_return_def
      split: option.splits prod.splits sum.splits)

section \<open>Only the final update touches the statistics\<close>

lemma keeps_return: "keeps_statistics (io_return x)"
  by (simp add: keeps_statistics_def io_return_def)

lemma keeps_throw: "keeps_statistics (io_throw e)"
  by (simp add: keeps_statistics_def io_throw_def)

lemma keeps_lift: "keeps_statistics (io_lift r)"
  by (simp add: keeps_statistics_def io_lift_def)

lemma keeps_reading: "keeps_statistics (reading f)"
  by (simp add: keeps_statistics_def reading_def)

lemma keeps_encoding: "keeps_statistics (encoding c r)"
  by (simp add: keeps_statistics_def encoding_def)

lemma keeps_ensureDir: "keeps_statistics (ensureDir env d)"
  by (simp add: keeps_statistics_def ensureDir_def split: option.splits)

lemma keeps_writeFile: "keeps_statistics (writeFile env f c)"
  by (simp add: keeps_statistics_def writeFile_def split: option.splits)

lemma keeps_validating: "keeps_statistics (validating c)"
  by (simp add: validating_def keeps_return keeps_throw split: option.splits)

lemma keeps_bind:
  "keeps_statistics m \<Longrightarrow> (\<And>x. keeps_statistics (f x)) \<Longrightarrow> keeps_statistics (io_bind m f)"
  by (auto simp: keeps_statistics_def io_bind_def split: prod.splits sum.splits) (metis snd_conv)+

lemmas keeps_intros = keeps_bind keeps_return keeps_throw keeps_lift keeps_reading
  keeps_encoding keeps_ensureDir keeps_writeFile keeps_validating

lemma keeps_generatePNG: "keeps_statistics (generatePNG env content config p)"
  unfolding generatePNG_def by (intro keeps_intros)

lemma keeps_generateSVG: "keeps_statistics (generateSVG env content config p)"
  unfolding generateSVG_def by (intro keeps_intros)

lemma keeps_generateOutputPath: "keeps_statistics (generateOutputPath env f)"
  unfolding generateOutputPath_def by (intro keeps_intros)

lemma keeps_applyAdvancedStyling: "keeps_statistics (applyAdvancedStyling env b st c p)"
  unfolding applyAdvancedStyling_def Let_def
  by (intro keeps_intros) (simp add: keeps_statistics_def)

lemma keeps_basic_body: "keeps_statistics (basic_body env content config)"
  unfolding basic_body_def
  by (intro keeps_intros keeps_generateOutputPath)
    (auto simp: keeps_generatePNG keeps_generateSVG split: option.splits QRFormat.splits)

lemma keeps_styled_body: "keeps_statistics (styled_body env content style config)"
  unfolding styled_body_def
  by (intro keeps_intros keeps_generateOutputPath keeps_applyAdvancedStyling)

section \<open>Rejected content\<close>

lemma trim_blank: "list_all isWhiteSpace content \<Longrightarrow> trim content = []"
proof -
  assume "list_all isWhiteSpace content"
  then have d: "dropWhile isWhiteSpace content = []"
    by (simp add: list_all_iff)
  show ?thesis unfolding trim_def d by simp
qed

lemma validateContent_blank:
  "list_all isWhiteSpace content \<Longrightarrow>
   validateContent content = Some (QRValidationError ''Content cannot be empty'')"
  by (simp add: validateContent_def trim_blank)

lemma basic_body_blank:
  "list_all isWhiteSpace content \<Longrightarrow>
   basic_body env content config s = (Inl (QRValidationError ''Content cannot be empty''), s)"
  by (simp add: basic_body_def validating_def validateContent_blank io_bind_def io_throw_def)

lemma styled_body_blank:
  "list_all isWhiteSpace content \<Longrightarrow>
   styled_body env content style config s = (Inl (QRValidationError ''Content cannot be empty''), s)"
  by (simp add: styled_body_def validating_def validateContent_blank io_bind_def io_throw_def)

lemma generateBasic_blank:
  assumes "list_all isWhiteSpace content"
  shows "generateBasic env content config s =
           (Inl (QRGenerationError ''Failed to generate basic QR code: Content cannot be empty''),
            s\<lparr> ticks := Suc (ticks s) \<rparr>)"
  using timed_Inl [OF basic_body_blank [OF assms]]
  by (simp add: generateBasic_timed)

lemma generateStyled_blank:
  assumes "list_all isWhiteSpace content"
  shows "generateStyled env content style config s =
           (Inl (QRGenerationError ''Failed to generate styled QR code: Content cannot be empty''),
            s\<lparr> ticks := Suc (ticks s) \<rparr>)"
  using timed_Inl [OF styled_body_blank [OF assms]]
  by (simp add: generateStyled_timed)

lemma generateStyled_invalid:
  assumes "validateContent content \<noteq> None"
  shows "\<not> succeeded (fst (generateStyled env content style config s))"
proof -
  from assms obtain e where "validateContent content = Some e" by auto
  then have "styled_body env content style config (s\<lparr> ticks := Suc (ticks s) \<rparr>) =
      (Inl e, s\<lparr> ticks := Suc (ticks s) \<rparr>)"
    by (simp add: styled_body_def validating_def io_bind_def io_throw_def)
  from timed_Inl [where body = "styled_body env content style config" and s = s, OF this]
  show ?thesis
    by (simp add: generateStyled_timed succeeded_def)
qed

section \<open>What a successful run returns\<close>

lemma generatePNG_original:
  "generatePNG env content config p s = (Inr r, s') \<Longrightarrow>
   map_option originalContent (metadata r) = Some content"
  by (auto simp: generatePNG_def io_defs split: prod.splits sum.splits option.splits)

lemma generateSVG_original:
  "generateSVG env content config p s = (Inr r, s') \<Longrightarrow>
   map_option originalContent (metadata r) = Some content"
  by (auto simp: generateSVG_def io_defs split: prod.splits sum.splits option.splits)

lemma applyAdvancedStyling_original:
  "applyAdvancedStyling env baseQR style config p s = (Inr r, s') \<Longrightarrow>
   map_option originalContent (metadata r) = Some ''styled content''"
  by (auto simp: applyAdvancedStyling_def Let_def io_defs split: prod.splits sum.splits option.splits)

lemma format_branch_original:
  assumes "(case format_c config of
              Some SVG \<Rightarrow> generateSVG env content config p
            | _ \<Rightarrow> generatePNG env content config p) s = (Inr r, s')"
  shows "map_option originalContent (metadata r) = Some content"
proof (cases "format_c config = Some SVG")
  case True
  with assms show ?thesis by (simp add: generateSVG_original)
next
  case False
  then have "(case format_c config of
                Some SVG \<Rightarrow> generateSVG env content config p
              | _ \<Rightarrow> generatePNG env content config p) = generatePNG env content config p"
    by (simp split: option.splits QRFormat.splits)
  with assms show ?thesis by (simp add: generatePNG_original)
qed

lemma basic_body_original:
  "basic_body env content config s = (Inr r, s') \<Longrightarrow>
   map_option originalContent (metadata r) = Some content"
  unfolding basic_body_def io_bind_Inr
  by (auto dest: format_branch_original)

lemma styled_body_original:
  "styled_body env content style config s = (Inr r, s') \<Longrightarrow>
   map_option originalContent (metadata r) = Some ''styled content''"
  unfolding styled_body_def io_bind_Inr
  by (auto dest: applyAdvancedStyling_original)

lemma generateBasic_png_returns:
  assumes "format_c config \<noteq> Some SVG"
    and "validateContent content = None"
    and "outputPath = path_join env (outputDir_of env)
           (''qr-'' @ uuidv4 env (Suc (ticks s)) @ ''.'' @ format_or_png (format_c config))"
    and "ensureDir_error env (path_dirname env outputPath) = None"
    and "QRCode_toBuffer env content (size_c config) (margin config) (errorCorrectionLevel config)
           = Inr buffer"
    and "writeFile_error env outputPath = None"
    and "result = \<lparr> success = True, filePath = Some outputPath, data = Some (Buffer buffer),
                    format_r = ''png'', size_r = length buffer, contentType = ''image/png'',
                    metadata = Some \<lparr> generatedAt = Date_toISOString env (Suc (Suc (ticks s))),
                                       originalContent = content,
                                       estimatedSize = length buffer \<rparr>,
                    error_r = None \<rparr>"
  shows "generateBasic env content config s =
           (Inr result,
            s\<lparr> ticks := ticks s + 5,
               encoded := encoded s @ [content],
               files := (files s)(outputPath \<mapsto> buffer),
               statistics := updateStatistics result
                 (Date_now env (Suc (Suc (Suc (ticks s)))) - Date_now env (ticks s))
                 (Date_toISOString env (Suc (Suc (Suc (Suc (ticks s)))))) (statistics s) \<rparr>)"
proof -
  from assms(1) have br: "\<And>p. (case format_c config of
        Some SVG \<Rightarrow> generateSVG env content config p
      | _ \<Rightarrow> generatePNG env content config p) = generatePNG env content config p"
    by (simp split: option.splits QRFormat.splits)
  show ?thesis
    unfolding generateBasic_def br
    using assms(2-)
    by (simp add: generatePNG_def generateOutputPath_def io_defs)
qed

lemma generateStyled_returns:
  assumes "validateContent content = None"
    and "outputPath = path_join env (outputDir_of env)
           (''qr-'' @ uuidv4 env (Suc (ticks s)) @ ''.'' @ format_or_png (format_c config))"
    and "ensureDir_error env (path_dirname env outputPath) = None"
    and "QRCode_toDataURL env content (size_c config) (margin config)
           (errorCorrectionLevel config) (foregroundColor style) (backgroundColor style)
           = Inr baseQR"
    and "loadImage env baseQR = Inr img"
    and "logoPath style = None"
    and "buffer = canvas_toBuffer env
           \<lparr> width_cv = size_or_300 (size_c config), height_cv = size_or_300 (size_c config),
             ops = [DrawImage img 0 0 (of_int (size_or_300 (size_c config)))
                      (of_int (size_or_300 (size_c config)))] \<rparr>"
    and "writeFile_error env outputPath = None"
    and "result = \<lparr> success = True, filePath = Some outputPath, data = Some (Buffer buffer),
                    format_r = ''png'', size_r = length buffer, contentType = ''image/png'',
                    metadata = Some \<lparr> generatedAt = Date_toISOString env (Suc (Suc (ticks s))),
                                       originalContent = ''styled content'',
                                       estimatedSize = length buffer \<rparr>,
                    error_r = None \<rparr>"
  shows "generateStyled env content style config s =
           (Inr result,
            s\<lparr> ticks := ticks s + 5,
               encoded := encoded s @ [content],
               files := (files s)(outputPath \<mapsto> buffer),
               statistics := updateStatistics result
                 (Date_now env (Suc (Suc (Suc (ticks s)))) - Date_now env (ticks s))
                 (Date_toISOString env (Suc (Suc (Suc (Suc (ticks s)))))) (statistics s) \<rparr>)"
  using assms
  by (simp add: generateStyled_def applyAdvancedStyling_def applyLogo_def generateOutputPath_def
      io_defs Let_def)

section \<open>The counters\<close>

lemma updateStatistics_total:
  "totalGenerated (updateStatistics r t now st) = Suc (totalGenerated st)"
  by (simp add: updateStatistics_def Let_def)

lemma slice_last_id: "length xs \<le> n \<Longrightarrow> slice_last n xs = xs"
  by (simp add: slice_last_def)

lemma length_slice_last: "length (slice_last n xs) \<le> n"
  by (simp add: slice_last_def)

lemma slice_last_append: "slice_last n (slice_last n xs @ ys) = slice_last n (xs @ ys)"
  by (cases "length xs \<le> n") (simp_all add: slice_last_def add.commute)

lemma updateStatistics_times:
  "generationTimes (updateStatistics r t now st) = slice_last 1000 (generationTimes st @ [t])"
  by (simp add: updateStatistics_def Let_def slice_last_def)

lemma updateStatistics_sizes:
  "sizes (updateStatistics r t now st) = slice_last 1000 (sizes st @ [size_r r])"
  by (simp add: updateStatistics_def Let_def slice_last_def)

lemma timed_step:
  assumes "keeps_statistics body"
  shows "stats_step (fst (timed env prefix body s)) (statistics s)
           (statistics (snd (timed env prefix body s)))"
proof (cases "body (s\<lparr> ticks := Suc (ticks s) \<rparr>)")
  case (Pair out s1)
  from assms have k: "statistics (snd (body (s\<lparr> ticks := Suc (ticks s) \<rparr>))) = statistics s"
    by (simp add: keeps_statistics_def)
  show ?thesis
  proof (cases out)
    case (Inl e)
    with Pair k timed_Inl [of body s e s1 env prefix] show ?thesis
      by (simp add: stats_step_def)
  next
    case (Inr r)
    with Pair k timed_Inr [of body s r s1 env prefix] show ?thesis
      by (auto simp: stats_step_def updateStatistics_total updateStatistics_times
          updateStatistics_sizes)
  qed
qed

lemma generate_step:
  "stats_step (fst (generate env req s)) (statistics s) (statistics (snd (generate env req s)))"
proof (cases req)
  case (Basic content config)
  then show ?thesis
    by (simp add: generateBasic_timed timed_step keeps_basic_body)
next
  case (Styled content style config)
  then show ?thesis
    by (simp add: generateStyled_timed timed_step keeps_styled_body)
next
  case (FromTemplate content name os oc)
  show ?thesis
  proof (cases "map_of (templates s) name")
    case None
    with FromTemplate show ?thesis
      by (simp add: generateFromTemplate_def stats_step_def)
  next
    case (Some t)
    let ?g = "generateStyled env content (merge_style (style_t t) os)
                (merge_config (config_t t) oc)"
    have st: "stats_step (fst (?g s)) (statistics s) (statistics (snd (?g s)))"
      by (simp add: generateStyled_timed timed_step keeps_styled_body)
    show ?thesis
    proof (cases "?g s")
      case (Pair out s1)
      with st Some FromTemplate show ?thesis
        by (cases out) (simp_all add: generateFromTemplate_def io_bind_def io_return_def
            stats_step_def)
    qed
  qed
qed

lemma generations_counters:
  "length (generationTimes (statistics s)) \<le> 1000 \<Longrightarrow>
   length (sizes (statistics s)) \<le> 1000 \<Longrightarrow>
   totalGenerated (statistics (snd (generations env rs s)))
     = totalGenerated (statistics s) + length (returned (fst (generations env rs s)))
   \<and> sizes (statistics (snd (generations env rs s)))
     = slice_last 1000 (sizes (statistics s) @ map size_r (returned (fst (generations env rs s))))
   \<and> (\<exists>ts. length ts = length (returned (fst (generations env rs s)))
        \<and> generationTimes (statistics (snd (generations env rs s)))
            = slice_last 1000 (generationTimes (statistics s) @ ts))"
proof (induction rs arbitrary: s)
  case Nil
  then show ?case by (simp add: slice_last_id)
next
  case (Cons r rs)
  obtain out s1 where g: "generate env r s = (out, s1)" by (cases "generate env r s")
  obtain outs s2 where gs: "generations env rs s1 = (outs, s2)"
    by (cases "generations env rs s1")
  from generate_step [of env r s] g
  have step: "stats_step out (statistics s) (statistics s1)" by simp
  show ?case
  proof (cases out)
    case (Inl e)
    with step have same: "totalGenerated (statistics s1) = totalGenerated (statistics s)"
      "generationTimes (statistics s1) = generationTimes (statistics s)"
      "sizes (statistics s1) = sizes (statistics s)"
      by (simp_all add: stats_step_def)
    with Cons.prems have "length (generationTimes (statistics s1)) \<le> 1000"
      "length (sizes (statistics s1)) \<le> 1000" by simp_all
    from Cons.IH [OF this] gs g Inl same show ?thesis by simp
  next
    case (Inr res)
    with step obtain t where upd: "totalGenerated (statistics s1) = Suc (totalGenerated (statistics s))"
      "generationTimes (statistics s1) = slice_last 1000 (generationTimes (statistics s) @ [t])"
      "sizes (statistics s1) = slice_last 1000 (sizes (statistics s) @ [size_r res])"
      by (auto simp: stats_step_def)
    then have "length (generationTimes (statistics s1)) \<le> 1000"
      "length (sizes (statistics s1)) \<le> 1000" by (simp_all add: length_slice_last)
    from Cons.IH [OF this] gs obtain ts where
      ih: "totalGenerated (statistics s2) = totalGenerated (statistics s1) + length (returned outs)"
        "sizes (statistics s2) = slice_last 1000 (sizes (statistics s1) @ map size_r (returned outs))"
        "length ts = length (returned outs)"
        "generationTimes (statistics s2) = slice_last 1000 (generationTimes (statistics s1) @ ts)"
      by auto
    have "generationTimes (statistics s2) = slice_last 1000 (generationTimes (statistics s) @ (t # ts))"
      using ih(4) upd(2) by (simp add: slice_last_append)
    moreover have "length (t # ts) = length (returned (out # outs))"
      using ih(3) Inr by simp
    moreover have "sizes (statistics s2) =
        slice_last 1000 (sizes (statistics s) @ map size_r (returned (out # outs)))"
      using ih(2) upd(3) Inr by (simp add: slice_last_append)
    moreover have "totalGenerated (statistics s2) =
        totalGenerated (statistics s) + length (returned (out # outs))"
      using ih(1) upd(1) Inr by simp
    ultimately show ?thesis using g gs
      by (auto simp del: returned.simps intro!: exI [of _ "t # ts"])
  qed
qed

lemma generations_Cons_fst:
  "fst (generations env (r # rs) s) =
     fst (generate env r s) # fst (generations env rs (snd (generate env r s)))"
  by (simp split: prod.splits)

section \<open>The batch loop\<close>

lemma batch_loop_acc:
  "batch_loop env args i xs acc s =
     (acc @ fst (batch_loop env args i xs [] s), snd (batch_loop env args i xs [] s))"
proof (induction xs arbitrary: i acc s)
  case Nil
  then show ?case by simp
next
  case (Cons x xs)
  obtain out s1 where g:
    "generateStyled env (content_i x) (item_style x) (batch_config args) s = (out, s1)"
    by (cases "generateStyled env (content_i x) (item_style x) (batch_config args) s")
  from Cons.IH [of "Suc i" "acc @ [batch_entry i out]" s1]
       Cons.IH [of "Suc i" "[batch_entry i out]" s1] g
  show ?case by simp
qed

lemma batch_loop_Cons:
  "generateStyled env (content_i x) (item_style x) (batch_config args) s = (out, s1) \<Longrightarrow>
   batch_loop env args i (x # xs) [] s =
     (batch_entry i out # fst (batch_loop env args (Suc i) xs [] s1),
      snd (batch_loop env args (Suc i) xs [] s1))"
  using batch_loop_acc [of env args "Suc i" xs "[batch_entry i out]" s1] by simp

lemma batch_loop_length: "length (fst (batch_loop env args i xs [] s)) = length xs"
proof (induction xs arbitrary: i s)
  case Nil
  then show ?case by simp
next
  case (Cons x xs)
  obtain out s1 where g:
    "generateStyled env (content_i x) (item_style x) (batch_config args) s = (out, s1)"
    by (cases "generateStyled env (content_i x) (item_style x) (batch_config args) s")
  from batch_loop_Cons [OF g] Cons.IH show ?case by (simp del: batch_loop.simps)
qed

lemma batch_loop_index:
  "map index (fst (batch_loop env args i xs [] s)) = [i..<i + length xs]"
proof (induction xs arbitrary: i s)
  case Nil
  then show ?case by simp
next
  case (Cons x xs)
  obtain out s1 where g:
    "generateStyled env (content_i x) (item_style x) (batch_config args) s = (out, s1)"
    by (cases "generateStyled env (content_i x) (item_style x) (batch_config args) s")
  have "index (batch_entry i out) = i"
    by (cases out) (simp_all add: batch_entry_def)
  with batch_loop_Cons [OF g] Cons.IH [of "Suc i" s1] show ?case
    by (simp add: upt_conv_Cons del: batch_loop.simps upt_Suc)
qed

lemma batch_loop_nth:
  "k < length xs \<Longrightarrow>
   fst (batch_loop env args i xs [] s) ! k =
     batch_entry (i + k)
       (fst (generateStyled env (content_i (xs ! k)) (item_style (xs ! k)) (batch_config args)
               (snd (batch_loop env args i (take k xs) [] s))))"
proof (induction xs arbitrary: i k s)
  case Nil
  then show ?case by simp
next
  case (Cons x xs)
  obtain out s1 where g:
    "generateStyled env (content_i x) (item_style x) (batch_config args) s = (out, s1)"
    by (cases "generateStyled env (content_i x) (item_style x) (batch_config args) s")
  show ?case
  proof (cases k)
    case 0
    with batch_loop_Cons [OF g] g show ?thesis by (simp del: batch_loop.simps(2))
  next
    case (Suc j)
    with Cons.prems have "j < length xs" by simp
    from Cons.IH [OF this, of "Suc i" s1] batch_loop_Cons [OF g] Suc show ?thesis
      by (simp del: batch_loop.simps(2))
  qed
qed

lemma success_e_batch_entry: "success_e (batch_entry i out) = succeeded out"
  by (cases out) (simp_all add: batch_entry_def succeeded_def)

section \<open>Runs in the concrete environment\<close>

lemma test_env_simps:
  "QR_OUTPUT_DIR test_env = None"
  "uuidv4 test_env n = replicate (Suc n) CHR ''u''"
  "Date_now test_env n = int n * 10"
  "Date_toISOString test_env n = replicate (Suc n) CHR ''t''"
  "path_join test_env d f = d @ ''/'' @ f"
  "path_dirname test_env p = takeWhile (\<lambda>c. c \<noteq> CHR ''/'') p"
  "ensureDir_error test_env d = None"
  "writeFile_error test_env f = None"
  "QRCode_toBuffer test_env content w m l = Inr (''PNG:'' @ content)"
  "QRCodeSVG_svg test_env content w m l = Inr (''SVG:'' @ content)"
  "QRCode_toDataURL test_env content w m l dark light = Inr (''PNG:'' @ content)"
  "loadImage test_env src = Inr src"
  "canvas_toBuffer test_env c = render_ops (ops c)"
  "Jimp_read test_env bytes =
     Inr \<lparr> data_b = map of_char bytes, width_b = 1, height_b = int (length bytes) \<rparr>"
  "jsQR test_env px cols rows =
     (if take 4 px = map of_char ''PNG:''
        then Inr (Some \<lparr> data_q = map char_of (drop 4 px), version_q = 1,
                          errorCorrectionLevel_q = ''M'', maskPattern_q = 0,
                          modules_q = 21 \<rparr>)
      else Inr None)"
  by (simp_all add: test_env_def)

lemma test_sys_simps:
  "statistics test_sys =
     \<lparr> totalGenerated = 0, byFormat = Map.empty, byTemplate = Map.empty,
       averageSize = 0, averageGenerationTime = 0, generationTimes = [], sizes = [],
       topContentTypes = [], lastGenerated = ''t0'' \<rparr>"
  "templates test_sys = initializeDefaultTemplates"
  "files test_sys = Map.empty(''photo.png'' \<mapsto> ''JFIF'')"
  "ticks test_sys = 0"
  "encoded test_sys = []"
  by (simp_all add: test_sys_def new_QRCodeEnhanced_def)

lemma generateBasic_test_env:
  assumes "format_c config \<noteq> Some SVG" and "validateContent content = None"
  shows "fst (generateBasic test_env content config s) =
     Inr \<lparr> success = True,
           filePath = Some (''./qr-codes/qr-'' @ replicate (Suc (Suc (ticks s))) CHR ''u'' @ ''.''
                             @ format_or_png (format_c config)),
           data = Some (Buffer (''PNG:'' @ content)),
           format_r = ''png'', size_r = length (''PNG:'' @ content), contentType = ''image/png'',
           metadata = Some \<lparr> generatedAt = replicate (Suc (Suc (Suc (ticks s)))) CHR ''t'',
                              originalContent = content,
                              estimatedSize = length (''PNG:'' @ content) \<rparr>,
           error_r = None \<rparr>"
  by (subst generateBasic_png_returns
        [where env = test_env and buffer = "''PNG:'' @ content", OF assms refl _ _ _ refl])
    (simp_all add: test_env_simps outputDir_of_def)

lemma generateStyled_test_env:
  assumes "validateContent content = None" and "logoPath style = None"
  shows "fst (generateStyled test_env content style config s) =
     Inr \<lparr> success = True,
           filePath = Some (''./qr-codes/qr-'' @ replicate (Suc (Suc (ticks s))) CHR ''u'' @ ''.''
                             @ format_or_png (format_c config)),
           data = Some (Buffer (''PNG:'' @ content)),
           format_r = ''png'', size_r = length (''PNG:'' @ content), contentType = ''image/png'',
           metadata = Some \<lparr> generatedAt = replicate (Suc (Suc (Suc (ticks s)))) CHR ''t'',
                              originalContent = ''styled content'',
                              estimatedSize = length (''PNG:'' @ content) \<rparr>,
           error_r = None \<rparr>"
  by (subst generateStyled_returns
        [where env = test_env and baseQR = "''PNG:'' @ content" and img = "''PNG:'' @ content",
         OF assms(1) refl _ _ _ assms(2) refl _ refl])
    (simp_all add: test_env_simps outputDir_of_def render_ops_def)

lemma generateStyled_test_env_state:
  assumes "validateContent content = None" and "logoPath style = None"
  shows "encoded (snd (generateStyled test_env content style config s)) = encoded s @ [content]"
  by (subst generateStyled_returns
        [where env = test_env and baseQR = "''PNG:'' @ content" and img = "''PNG:'' @ content",
         OF assms(1) refl _ _ _ assms(2) refl _ refl])
    (simp_all add: test_env_simps outputDir_of_def render_ops_def)

lemma generateBasic_test_env_files:
  assumes "format_c config \<noteq> Some SVG" and "validateContent content = None"
  shows "files (snd (generateBasic test_env content config s)) =
     (files s)(''./qr-codes/qr-'' @ replicate (Suc (Suc (ticks s))) CHR ''u'' @ ''.''
                 @ format_or_png (format_c config) \<mapsto> ''PNG:'' @ content)"
  by (subst generateBasic_png_returns
        [where env = test_env and buffer = "''PNG:'' @ content", OF assms refl _ _ _ refl])
    (simp_all add: test_env_simps outputDir_of_def)

lemma callTool_fst:
  "fst (callTool handler s) =
     (case fst (handler s) of
        Inr r \<Rightarrow> Answer r
      | Inl e \<Rightarrow> IsError (errorType e) (error_message e))"
  by (simp add: callTool_def split: prod.splits sum.splits)

lemma valid_examples:
  "validateContent ''hello'' = None" "validateContent ''a'' = None"
  "validateContent ''b'' = None" "validateContent ''c'' = None"
  by (simp_all add: validateContent_def trim_def isWhiteSpace_def)

section \<open>The claims\<close>

subsection \<open>C1: the ``pdf'' format\<close>

text \<open>
  C1. A request whose \<open>config.format\<close> is \<open>'pdf'\<close> should fail with an ``unsupported
  format'' error and never fall back to a PNG artifact. The code does fall back: the
  \<open>switch\<close> of \<open>generateBasic\<close> has a case for \<open>'svg'\<close> only, so \<open>'pdf'\<close> runs the
  \<open>default\<close> branch, which is the PNG branch. In the concrete environment the request
  for \<open>hello\<close> with format \<open>pdf\<close>, made to \<open>generateBasic\<close> or through the
  \<open>generate_qr_basic\<close> tool, returns a successful result of format \<open>png\<close> and content
  type \<open>image/png\<close>, and the file written under the \<open>.pdf\<close> name holds the PNG
  encoder's bytes.
\<close>

theorem generateBasic_pdf_yields_png:
  "fst (generateBasic test_env ''hello'' (no_config\<lparr> format_c := Some PDF \<rparr>) test_sys) =
     Inr \<lparr> success = True, filePath = Some ''./qr-codes/qr-uu.pdf'',
           data = Some (Buffer ''PNG:hello''), format_r = ''png'', size_r = 9,
           contentType = ''image/png'',
           metadata = Some \<lparr> generatedAt = ''ttt'', originalContent = ''hello'',
                              estimatedSize = 9 \<rparr>,
           error_r = None \<rparr>
   \<and> files (snd (generateBasic test_env ''hello'' (no_config\<lparr> format_c := Some PDF \<rparr>)
                    test_sys)) ''./qr-codes/qr-uu.pdf'' = Some ''PNG:hello''
   \<and> fst (callTool (handleGenerateBasic test_env ''hello''
               (no_config\<lparr> format_c := Some PDF \<rparr>)) test_sys) =
       Answer \<lparr> success = True, filePath = Some ''./qr-codes/qr-uu.pdf'',
                data = Some (Buffer ''PNG:hello''), format_r = ''png'', size_r = 9,
                contentType = ''image/png'',
                metadata = Some \<lparr> generatedAt = ''ttt'', originalContent = ''hello'',
                                   estimatedSize = 9 \<rparr>,
                error_r = None \<rparr>"
proof -
  let ?c = "no_config\<lparr> format_c := Some PDF \<rparr>"
  let ?v = "\<lparr> size_c = Some 300, margin = Some 1, errorCorrectionLevel = Some ecM,
              format_c = Some PDF \<rparr>"
  have nosvg: "format_c ?c \<noteq> Some SVG" "format_c ?v \<noteq> Some SVG"
    by simp_all
  have parsed: "QRConfigSchema_safeParse ?c = Some ?v"
    by (simp add: QRConfigSchema_safeParse_def in_range_def orElse_def no_config_def)
  have direct: "fst (generateBasic test_env ''hello'' ?c test_sys) =
      Inr \<lparr> success = True, filePath = Some ''./qr-codes/qr-uu.pdf'',
            data = Some (Buffer ''PNG:hello''), format_r = ''png'', size_r = 9,
            contentType = ''image/png'',
            metadata = Some \<lparr> generatedAt = ''ttt'', originalContent = ''hello'',
                               estimatedSize = 9 \<rparr>,
            error_r = None \<rparr>"
    by (simp add: generateBasic_test_env [OF nosvg(1) valid_examples(1)] test_sys_simps
        format_or_png_def)
  have written: "files (snd (generateBasic test_env ''hello'' ?c test_sys))
      ''./qr-codes/qr-uu.pdf'' = Some ''PNG:hello''"
    by (simp add: generateBasic_test_env_files [OF nosvg(1) valid_examples(1)] test_sys_simps
        format_or_png_def)
  have tool: "fst (callTool (handleGenerateBasic test_env ''hello'' ?c) test_sys) =
      Answer \<lparr> success = True, filePath = Some ''./qr-codes/qr-uu.pdf'',
               data = Some (Buffer ''PNG:hello''), format_r = ''png'', size_r = 9,
               contentType = ''image/png'',
               metadata = Some \<lparr> generatedAt = ''ttt'', originalContent = ''hello'',
                                  estimatedSize = 9 \<rparr>,
               error_r = None \<rparr>"
    by (simp add: callTool_fst handleGenerateBasic_def parsed
        generateBasic_test_env [OF nosvg(2) valid_examples(1)] test_sys_simps format_or_png_def)
  from direct written tool show ?thesis by simp
qed

subsection \<open>C2: empty and whitespace-only content\<close>

text \<open>
  C2. For every empty or whitespace-only content string a generation call fails before any
  encode attempt, writes no file and leaves the statistics unchanged. The error that leaves
  \<open>generateBasic\<close> is not the \<open>QRValidationError\<close> that \<open>validateContent\<close> threw:
  the \<open>catch\<close> block of \<open>generateBasic\<close> rethrows it as a \<open>QRGenerationError\<close>, which
  the dispatcher reports as \<open>GenerationError\<close>. \<open>generateStyled\<close> does the same.
\<close>

theorem blank_content_rejected:
  assumes "list_all isWhiteSpace content"
  shows "fst (generateBasic env content config s) =
           Inl (QRGenerationError ''Failed to generate basic QR code: Content cannot be empty'')
       \<and> fst (callTool (handleGenerateBasic env content no_config) s) =
           IsError ''GenerationError''
             ''Failed to generate basic QR code: Content cannot be empty''
       \<and> files (snd (generateBasic env content config s)) = files s
       \<and> statistics (snd (generateBasic env content config s)) = statistics s
       \<and> encoded (snd (generateBasic env content config s)) = encoded s
       \<and> generateStyled env content style config s =
           (Inl (QRGenerationError ''Failed to generate styled QR code: Content cannot be empty''),
            s\<lparr> ticks := Suc (ticks s) \<rparr>)"
  by (simp add: generateBasic_blank [OF assms] generateStyled_blank [OF assms]
      handleGenerateBasic_def QRConfigSchema_safeParse_def in_range_def no_config_def
      callTool_def)

theorem blank_content_witness:
  "list_all isWhiteSpace [CHR 0x20, CHR 0x09]
   \<and> fst (generateBasic test_env [CHR 0x20, CHR 0x09] no_config test_sys) =
       Inl (QRGenerationError ''Failed to generate basic QR code: Content cannot be empty'')
   \<and> fst (callTool (handleGenerateBasic test_env [] no_config) test_sys) =
       IsError ''GenerationError'' ''Failed to generate basic QR code: Content cannot be empty''
   \<and> encoded (snd (generateBasic test_env [] no_config test_sys)) = []"
  using blank_content_rejected [of "[CHR 0x20, CHR 0x09]" test_env no_config test_sys]
    blank_content_rejected [of "[]" test_env no_config test_sys]
  by (simp add: isWhiteSpace_def test_sys_simps)

subsection \<open>C3: size and margin bounds\<close>

text \<open>
  C3. The bounds on \<open>size\<close> (50 to 2000) and \<open>margin\<close> (0 to 10) are those of
  \<open>QRConfigSchema\<close>, which \<open>handleGenerateBasic\<close> applies before it calls the generator.
  \<open>handleGenerateStyled\<close> passes \<open>args.config\<close> on unchecked and \<open>generateStyled\<close>
  checks nothing but the content: the configuration with size 2500 and margin 11, which the
  schema rejects and the basic tool answers with a \<open>ValidationError\<close>, is accepted by the
  styled tool, handed to the encoder and answered with a generated artifact.
\<close>

theorem styled_out_of_range_accepted:
  "QRConfigSchema_safeParse (no_config\<lparr> size_c := Some 2500, margin := Some 11 \<rparr>) = None
   \<and> fst (callTool (handleGenerateBasic test_env ''hello''
               (no_config\<lparr> size_c := Some 2500, margin := Some 11 \<rparr>)) test_sys) =
       IsError ''ValidationError'' ''Invalid basic QR configuration''
   \<and> fst (callTool (handleGenerateStyled test_env ''hello'' None
               (Some (no_config\<lparr> size_c := Some 2500, margin := Some 11 \<rparr>))) test_sys) =
       Answer \<lparr> success = True, filePath = Some ''./qr-codes/qr-uu.png'',
                data = Some (Buffer ''PNG:hello''), format_r = ''png'', size_r = 9,
                contentType = ''image/png'',
                metadata = Some \<lparr> generatedAt = ''ttt'', originalContent = ''styled content'',
                                   estimatedSize = 9 \<rparr>,
                error_r = None \<rparr>
   \<and> encoded (snd (handleGenerateStyled test_env ''hello'' None
               (Some (no_config\<lparr> size_c := Some 2500, margin := Some 11 \<rparr>)) test_sys)) =
       [''hello'']"
proof -
  let ?c = "no_config\<lparr> size_c := Some 2500, margin := Some 11 \<rparr>"
  have rejected: "QRConfigSchema_safeParse ?c = None"
    by (simp add: QRConfigSchema_safeParse_def in_range_def no_config_def)
  have nologo: "logoPath no_style = None"
    by (simp add: no_style_def)
  have run: "fst (generateStyled test_env ''hello'' no_style ?c test_sys) =
      Inr \<lparr> success = True, filePath = Some ''./qr-codes/qr-uu.png'',
            data = Some (Buffer ''PNG:hello''), format_r = ''png'', size_r = 9,
            contentType = ''image/png'',
            metadata = Some \<lparr> generatedAt = ''ttt'', originalContent = ''styled content'',
                               estimatedSize = 9 \<rparr>,
            error_r = None \<rparr>"
    by (simp add: generateStyled_test_env [OF valid_examples(1) nologo] test_sys_simps
        format_or_png_def no_config_def)
  have log: "encoded (snd (generateStyled test_env ''hello'' no_style ?c test_sys)) = [''hello'']"
    by (simp add: generateStyled_test_env_state [OF valid_examples(1) nologo] test_sys_simps)
  from run have answer: "fst (callTool (generateStyled test_env ''hello'' no_style ?c) test_sys) =
      Answer \<lparr> success = True, filePath = Some ''./qr-codes/qr-uu.png'',
               data = Some (Buffer ''PNG:hello''), format_r = ''png'', size_r = 9,
               contentType = ''image/png'',
               metadata = Some \<lparr> generatedAt = ''ttt'', originalContent = ''styled content'',
                                  estimatedSize = 9 \<rparr>,
               error_r = None \<rparr>"
    by (cases "generateStyled test_env ''hello'' no_style ?c test_sys") (simp add: callTool_def)
  show ?thesis
    using rejected answer log
    by (simp add: handleGenerateStyled_def handleGenerateBasic_def callTool_def io_throw_def)
qed

text \<open>
  X1. \<open>handleGenerateBasic\<close> enforces the bounds of \<open>QRConfigSchema\<close>: a size outside
  50 to 2000 or a margin outside 0 to 10 is answered with the \<open>QRValidationError\<close>
  \<open>Invalid basic QR configuration\<close> before the generator is called, with the state
  untouched; an accepted configuration reaches \<open>generateBasic\<close> with the given size and
  margin unchanged (300 and 1 when absent), never clamped.
\<close>

theorem handleGenerateBasic_checks_bounds:
  "(size_c args = Some n \<and> (n < 50 \<or> 2000 < n) \<or> margin args = Some m \<and> (m < 0 \<or> 10 < m)
      \<longrightarrow> handleGenerateBasic env content args s =
            (Inl (QRValidationError ''Invalid basic QR configuration''), s))
   \<and> (QRConfigSchema_safeParse args = Some v
      \<longrightarrow> handleGenerateBasic env content args s = generateBasic env content v s
          \<and> size_c v = Some (case size_c args of None \<Rightarrow> 300 | Some k \<Rightarrow> k)
          \<and> margin v = Some (case margin args of None \<Rightarrow> 1 | Some k \<Rightarrow> k)
          \<and> in_range 50 2000 (size_c v) \<and> in_range 0 10 (margin v))"
proof (intro conjI impI)
  assume "size_c args = Some n \<and> (n < 50 \<or> 2000 < n)
      \<or> margin args = Some m \<and> (m < 0 \<or> 10 < m)"
  then have "QRConfigSchema_safeParse args = None"
    by (auto simp: QRConfigSchema_safeParse_def in_range_def)
  then show "handleGenerateBasic env content args s =
      (Inl (QRValidationError ''Invalid basic QR configuration''), s)"
    by (simp add: handleGenerateBasic_def io_throw_def)
next
  assume a: "QRConfigSchema_safeParse args = Some v"
  then have r: "in_range 50 2000 (size_c args)" "in_range 0 10 (margin args)"
    by (simp_all add: QRConfigSchema_safeParse_def split: if_splits)
  with a have v: "size_c v = orElse (size_c args) (Some 300)"
    "margin v = orElse (margin args) (Some 1)"
    by (auto simp: QRConfigSchema_safeParse_def)
  from a show "handleGenerateBasic env content args s = generateBasic env content v s"
    by (simp add: handleGenerateBasic_def)
  from v show "size_c v = Some (case size_c args of None \<Rightarrow> 300 | Some k \<Rightarrow> k)"
    by (simp add: orElse_def split: option.splits)
  from v show "margin v = Some (case margin args of None \<Rightarrow> 1 | Some k \<Rightarrow> k)"
    by (simp add: orElse_def split: option.splits)
  from v r show "in_range 50 2000 (size_c v)"
    by (simp add: orElse_def in_range_def split: option.splits)
  from v r show "in_range 0 10 (margin v)"
    by (simp add: orElse_def in_range_def split: option.splits)
qed

theorem handleGenerateBasic_checks_bounds_witness:
  "handleGenerateBasic test_env ''hello'' (no_config\<lparr> size_c := Some 2500 \<rparr>) test_sys =
     (Inl (QRValidationError ''Invalid basic QR configuration''), test_sys)
   \<and> size_c (the (QRConfigSchema_safeParse (no_config\<lparr> size_c := Some 50 \<rparr>))) = Some 50"
proof -
  have a: "QRConfigSchema_safeParse (no_config\<lparr> size_c := Some 50 \<rparr>) =
      Some \<lparr> size_c = Some 50, margin = Some 1, errorCorrectionLevel = Some ecM,
             format_c = Some PNG \<rparr>"
    by (simp add: no_config_def QRConfigSchema_safeParse_def in_range_def orElse_def)
  from handleGenerateBasic_checks_bounds
         [where args = "no_config\<lparr> size_c := Some 2500 \<rparr>" and n = 2500 and env = test_env
            and content = "''hello''" and s = test_sys]
       handleGenerateBasic_checks_bounds
         [where args = "no_config\<lparr> size_c := Some 50 \<rparr>"
            and v = "\<lparr> size_c = Some 50, margin = Some 1, errorCorrectionLevel = Some ecM,
                       format_c = Some PNG \<rparr>"] a
  show ?thesis by simp
qed

subsection \<open>Decoding a generated file\<close>

text \<open>
  X2. After a successful \<open>generateBasic\<close> on its PNG path, \<open>decodeFromImage\<close> on the
  returned \<open>filePath\<close> reads back exactly the buffer the encoder produced, and the
  content of its result is whatever \<open>jsQR\<close> decodes from that buffer. Whether this is
  the content that was encoded is a property of the external encoder and decoder alone.
\<close>

theorem decode_of_generated:
  assumes "format_c config \<noteq> Some SVG"
    and "validateContent content = None"
    and "outputPath = path_join env (outputDir_of env)
           (''qr-'' @ uuidv4 env (Suc (ticks s)) @ ''.'' @ format_or_png (format_c config))"
    and "ensureDir_error env (path_dirname env outputPath) = None"
    and "QRCode_toBuffer env content (size_c config) (margin config) (errorCorrectionLevel config)
           = Inr buffer"
    and "writeFile_error env outputPath = None"
    and "Jimp_read env buffer = Inr bitmap"
    and "jsQR env (data_b bitmap) (width_b bitmap) (height_b bitmap) = Inr (Some code)"
  shows "filePath (projr (fst (generateBasic env content config s))) = Some outputPath
       \<and> fst (decodeFromImage env outputPath (snd (generateBasic env content config s))) =
           Inr \<lparr> success_a = True, content_a = Some (data_q code), format_a = Some ''text'',
                 quality = None,
                 metadata_a = Some \<lparr> version = version_q code,
                                      errorCorrectionLevel_m = errorCorrectionLevel_q code,
                                      maskPattern = maskPattern_q code,
                                      modules = modules_q code \<rparr>,
                 error_a = None \<rparr>"
proof -
  note run = generateBasic_png_returns [OF assms(1-6) refl]
  show ?thesis
    unfolding run
    by (simp add: decodeFromImage_def io_defs assms(7,8))
qed

theorem decode_of_generated_witness:
  "content_a (projr (fst (decodeFromImage test_env ''./qr-codes/qr-uu.png''
      (snd (generateBasic test_env ''hello'' no_config test_sys))))) = Some ''hello''"
proof -
  have h1: "format_c no_config \<noteq> Some SVG" by (simp add: no_config_def)
  have h3: "''./qr-codes/qr-uu.png'' = path_join test_env (outputDir_of test_env)
      (''qr-'' @ uuidv4 test_env (Suc (ticks test_sys)) @ ''.'' @ format_or_png (format_c no_config))"
    by (simp add: test_env_simps test_sys_simps outputDir_of_def format_or_png_def no_config_def)
  have h4: "ensureDir_error test_env (path_dirname test_env ''./qr-codes/qr-uu.png'') = None"
    and h5: "QRCode_toBuffer test_env ''hello'' (size_c no_config) (margin no_config)
      (errorCorrectionLevel no_config) = Inr ''PNG:hello''"
    and h6: "writeFile_error test_env ''./qr-codes/qr-uu.png'' = None"
    and h7: "Jimp_read test_env ''PNG:hello'' =
      Inr \<lparr> data_b = map of_char ''PNG:hello'', width_b = 1, height_b = 9 \<rparr>"
    by (simp_all add: test_env_simps del: of_char_Char)
  have h8: "jsQR test_env (data_b \<lparr> data_b = map of_char ''PNG:hello'', width_b = 1, height_b = 9 \<rparr>)
      (width_b \<lparr> data_b = map of_char ''PNG:hello'', width_b = 1, height_b = 9 \<rparr>)
      (height_b \<lparr> data_b = map of_char ''PNG:hello'', width_b = 1, height_b = 9 \<rparr>) =
      Inr (Some \<lparr> data_q = ''hello'', version_q = 1, errorCorrectionLevel_q = ''M'',
                   maskPattern_q = 0, modules_q = 21 \<rparr>)"
    by (simp add: test_env_simps del: of_char_Char)
  from decode_of_generated [OF h1 valid_examples(1) h3 h4 h5 h6 h7 h8]
  show ?thesis by simp
qed

subsection \<open>C5: the WiFi payload\<close>

lemma password_or_empty_simps:
  "password_or_empty None = []" "password_or_empty (Some v) = v"
  by (simp_all add: password_or_empty_def)

text \<open>
  C5. For every network credential the WiFi payload encoder returns exactly
  \<open>WIFI:T:<security>;S:<ssid>;P:<password-or-empty>;H:<true|false>;;\<close>: the password
  field is empty when no password is given, the hidden field is \<open>false\<close> when
  \<open>hidden\<close> is false or was absent from the arguments (the schema default), and the
  credential with ssid \<open>Guest\<close> and security \<open>nopass\<close> yields
  \<open>WIFI:T:nopass;S:Guest;P:;H:false;;\<close>.
\<close>

theorem buildWiFiContent_grammar:
  "buildWiFiContent \<lparr> ssid = s, password = Some p, security = t, hidden = True \<rparr>
     = ''WIFI:T:'' @ security_string t @ '';S:'' @ s @ '';P:'' @ p @ '';H:true;;''
   \<and> buildWiFiContent \<lparr> ssid = s, password = Some p, security = t, hidden = False \<rparr>
     = ''WIFI:T:'' @ security_string t @ '';S:'' @ s @ '';P:'' @ p @ '';H:false;;''
   \<and> buildWiFiContent \<lparr> ssid = s, password = None, security = t, hidden = True \<rparr>
     = ''WIFI:T:'' @ security_string t @ '';S:'' @ s @ '';P:;H:true;;''
   \<and> buildWiFiContent \<lparr> ssid = s, password = None, security = t, hidden = False \<rparr>
     = ''WIFI:T:'' @ security_string t @ '';S:'' @ s @ '';P:;H:false;;''
   \<and> buildWiFiContent
         (WiFiSchema_parse \<lparr> ssid_arg = s, password_arg = pw, security_arg = Some t,
                              hidden_arg = None \<rparr>)
     = ''WIFI:T:'' @ security_string t @ '';S:'' @ s @ '';P:'' @ password_or_empty pw
         @ '';H:false;;''
   \<and> buildWiFiContent
         (WiFiSchema_parse \<lparr> ssid_arg = ''Guest'', password_arg = None,
                              security_arg = Some nopass, hidden_arg = None \<rparr>)
     = ''WIFI:T:nopass;S:Guest;P:;H:false;;''"
  by (simp add: buildWiFiContent_def WiFiSchema_parse_def password_or_empty_simps)

subsection \<open>C6: the quality score\<close>


subsection \<open>C7: the statistics\<close>

text \<open>
  C7. From a state whose two rolling windows hold at most 1000 entries (the constructor's
  state holds none), after any sequence of generation calls of which \<open>N\<close> returned,
  \<open>totalGenerated\<close> is its prior value plus \<open>N\<close>, and both windows still hold at most
  1000 entries. Each window is the prior window followed by the \<open>N\<close> new entries, in
  order, with as many entries removed from its front as exceed 1000: the oldest entries are
  the ones dropped and the newest are kept. One \<open>updateStatistics\<close> adds one to the total,
  appends its entry to each window and removes from the front what exceeds 1000, whatever
  the windows held before.
\<close>

theorem statistics_after_generations:
  assumes "length (generationTimes (statistics s)) \<le> 1000"
    and "length (sizes (statistics s)) \<le> 1000"
  shows "totalGenerated (statistics (snd (generations env rs s)))
           = totalGenerated (statistics s) + length (returned (fst (generations env rs s)))
       \<and> length (generationTimes (statistics (snd (generations env rs s)))) \<le> 1000
       \<and> length (sizes (statistics (snd (generations env rs s)))) \<le> 1000
       \<and> sizes (statistics (snd (generations env rs s)))
           = drop (length (sizes (statistics s)
                            @ map size_r (returned (fst (generations env rs s)))) - 1000)
               (sizes (statistics s) @ map size_r (returned (fst (generations env rs s))))
       \<and> (\<exists>ts. length ts = length (returned (fst (generations env rs s)))
            \<and> generationTimes (statistics (snd (generations env rs s)))
                = drop (length (generationTimes (statistics s) @ ts) - 1000)
                    (generationTimes (statistics s) @ ts))
       \<and> totalGenerated (updateStatistics r t now st) = totalGenerated st + 1
       \<and> generationTimes (updateStatistics r t now st)
           = drop (length (generationTimes st @ [t]) - 1000) (generationTimes st @ [t])
       \<and> sizes (updateStatistics r t now st)
           = drop (length (sizes st @ [size_r r]) - 1000) (sizes st @ [size_r r])
       \<and> length (generationTimes (updateStatistics r t now st)) \<le> 1000
       \<and> length (sizes (updateStatistics r t now st)) \<le> 1000"
proof -
  note c = generations_counters [OF assms, of env rs]
  from c obtain ts where
    "generationTimes (statistics (snd (generations env rs s)))
       = slice_last 1000 (generationTimes (statistics s) @ ts)"
    by blast
  then have b1: "length (generationTimes (statistics (snd (generations env rs s)))) \<le> 1000"
    by (simp add: length_slice_last)
  from c have b2: "length (sizes (statistics (snd (generations env rs s)))) \<le> 1000"
    by (simp add: length_slice_last)
  have u1: "generationTimes (updateStatistics r t now st)
      = drop (length (generationTimes st @ [t]) - 1000) (generationTimes st @ [t])"
    unfolding updateStatistics_times slice_last_def ..
  have u2: "sizes (updateStatistics r t now st)
      = drop (length (sizes st @ [size_r r]) - 1000) (sizes st @ [size_r r])"
    unfolding updateStatistics_sizes slice_last_def ..
  have u3: "length (generationTimes (updateStatistics r t now st)) \<le> 1000"
    "length (sizes (updateStatistics r t now st)) \<le> 1000"
    by (simp_all add: updateStatistics_times updateStatistics_sizes length_slice_last)
  from c [unfolded slice_last_def] b1 b2 u1 u2 u3 updateStatistics_total [of r t now st]
  show ?thesis
    by simp
qed

theorem statistics_after_generations_witness:
  "length (generationTimes (statistics full_sys)) \<le> 1000
   \<and> length (sizes (statistics full_sys)) \<le> 1000
   \<and> sizes (statistics full_sys) = 7 # replicate 999 9
   \<and> generationTimes (statistics full_sys) = 70 # replicate 999 90
   \<and> totalGenerated (statistics (snd (generations test_env [Basic ''a'' no_config] full_sys)))
       = 1
   \<and> sizes (statistics (snd (generations test_env [Basic ''a'' no_config] full_sys)))
       = replicate 999 9 @ [5]
   \<and> take 999 (generationTimes
         (statistics (snd (generations test_env [Basic ''a'' no_config] full_sys))))
       = replicate 999 90
   \<and> length (generationTimes
         (statistics (snd (generations test_env [Basic ''a'' no_config] full_sys)))) = 1000
   \<and> length (returned (fst (generations test_env test_requests test_sys))) = 2
   \<and> totalGenerated (statistics (snd (generations test_env test_requests test_sys))) = 2"
proof -
  have j1: "length (generationTimes (statistics test_sys)) \<le> 1000"
    and j2: "length (sizes (statistics test_sys)) \<le> 1000"
    by (simp_all add: test_sys_simps)
  have nologo: "logoPath no_style = None"
    by (simp add: no_style_def)
  have nosvg': "format_c no_config \<noteq> Some SVG"
    by (simp add: no_config_def)
  have "map size_r (returned (fst (generations test_env test_requests test_sys))) = [5, 5]"
    by (simp add: test_requests_def generations_Cons_fst
        generateBasic_test_env [OF nosvg' valid_examples(2)]
        generateStyled_test_env [OF valid_examples(3) nologo]
        generateBasic_blank del: generations.simps(2))
  then have n2: "length (returned (fst (generations test_env test_requests test_sys))) = 2"
    by (metis length_map length_Cons list.size(3) numeral_2_eq_2)
  from statistics_after_generations [OF j1 j2, of test_env test_requests, THEN conjunct1] n2
  have mixed: "totalGenerated (statistics (snd (generations test_env test_requests test_sys)))
      = 2"
    by (simp add: test_sys_simps)
  have w: "sizes (statistics full_sys) = 7 # replicate 999 9"
    "generationTimes (statistics full_sys) = 70 # replicate 999 90"
    "totalGenerated (statistics full_sys) = 0"
    by (simp_all add: full_sys_def test_sys_simps)
  have i1: "length (generationTimes (statistics full_sys)) \<le> 1000"
    and i2: "length (sizes (statistics full_sys)) \<le> 1000"
    by (simp_all add: w)
  have nosvg: "format_c no_config \<noteq> Some SVG"
    by (simp add: no_config_def)
  have outs: "map size_r (returned (fst (generations test_env [Basic ''a'' no_config] full_sys)))
      = [5]"
    by (simp add: generations_Cons_fst generateBasic_test_env [OF nosvg valid_examples(2)]
        del: generations.simps(2))
  then have n: "length (returned (fst (generations test_env [Basic ''a'' no_config] full_sys)))
      = Suc 0"
    by (metis length_map length_Cons list.size(3))
  define fin where "fin = snd (generations test_env [Basic ''a'' no_config] full_sys)"
  note inst = statistics_after_generations
    [OF i1 i2, of test_env "[Basic ''a'' no_config]", unfolded n outs w, folded fin_def]
  from inst have tot: "totalGenerated (statistics fin) = 1"
    by simp
  from inst have sz: "sizes (statistics fin) = replicate 999 9 @ [5]"
    by simp
  from inst [THEN conjunct2, THEN conjunct2, THEN conjunct2, THEN conjunct2, THEN conjunct1]
  obtain ts where lts: "length ts = Suc 0"
    and g0: "generationTimes (statistics fin) =
      drop (length ((70 # replicate 999 90) @ ts) - 1000) ((70 # replicate 999 90) @ ts)"
    by blast
  from lts obtain t where "ts = [t]"
    by (cases ts) simp_all
  with g0 have gt: "generationTimes (statistics fin) = replicate 999 90 @ [t]"
    by simp
  from w i1 i2 tot sz gt n2 mixed show ?thesis
    unfolding fin_def by (simp del: generations.simps)
qed

subsection \<open>C8: decoding\<close>

text \<open>
  C8. For every image path that does not reference an existing file, \<open>decodeFromImage\<close>
  throws a \<open>QRAnalysisError\<close>, which the dispatcher reports as \<open>AnalysisError\<close>; it
  does not return a \<open>success: false\<close> result. For every existing file that the image
  reader loads and in which the decoder finds no symbol, \<open>decodeFromImage\<close> returns the
  result with \<open>success: false\<close> and the error string \<open>No QR code found in image\<close>, throws
  nothing and changes nothing.
\<close>

theorem decodeFromImage_missing_or_blank:
  "(files s imagePath = None \<longrightarrow>
      decodeFromImage env imagePath s =
        (Inl (QRAnalysisError (''Failed to decode QR code: Image file not found: '' @ imagePath)), s)
      \<and> fst (callTool (handleDecodeQR env imagePath) s) =
          IsError ''AnalysisError'' (''Failed to decode QR code: Image file not found: '' @ imagePath))
   \<and> (files s imagePath = Some bytes \<and> Jimp_read env bytes = Inr bitmap
        \<and> jsQR env (data_b bitmap) (width_b bitmap) (height_b bitmap) = Inr None \<longrightarrow>
      decodeFromImage env imagePath s =
        (Inr \<lparr> success_a = False, content_a = None, format_a = None, quality = None,
                metadata_a = None, error_a = Some ''No QR code found in image'' \<rparr>, s)
      \<and> fst (callTool (handleDecodeQR env imagePath) s) =
          Answer \<lparr> success_a = False, content_a = None, format_a = None, quality = None,
                   metadata_a = None, error_a = Some ''No QR code found in image'' \<rparr>)"
  by (simp add: decodeFromImage_def handleDecodeQR_def callTool_def io_defs)

theorem decodeFromImage_witness:
  "files test_sys ''nofile.png'' = None
   \<and> fst (callTool (handleDecodeQR test_env ''nofile.png'') test_sys) =
       IsError ''AnalysisError'' ''Failed to decode QR code: Image file not found: nofile.png''
   \<and> files test_sys ''photo.png'' = Some ''JFIF''
   \<and> decodeFromImage test_env ''photo.png'' test_sys =
       (Inr \<lparr> success_a = False, content_a = None, format_a = None, quality = None,
               metadata_a = None, error_a = Some ''No QR code found in image'' \<rparr>, test_sys)"
  using decodeFromImage_missing_or_blank
          [where s = test_sys and imagePath = "''nofile.png''" and env = test_env]
        decodeFromImage_missing_or_blank
          [where s = test_sys and imagePath = "''photo.png''" and env = test_env
             and bytes = "''JFIF''"
             and bitmap = "\<lparr> data_b = map of_char ''JFIF'', width_b = 1, height_b = 4 \<rparr>"]
  by (simp add: test_sys_simps test_env_simps)

subsection \<open>C9: batch generation\<close>

text \<open>
  C9. For every batch that passes the schema check and whose output directory can be
  created, \<open>handleGenerateBatch\<close> returns, and no item's failure keeps a later item from
  being processed: the result list has one entry per item, in order (entry \<open>k\<close> carries
  index \<open>k\<close>); entry \<open>k\<close> is the outcome of the styled generation of item \<open>k\<close>, run in
  the state the items before it left behind; an item whose content is rejected yields a
  failure entry; and the two counts are the numbers of success and of failure entries, which
  add up to the number of items.
\<close>

theorem handleGenerateBatch_isolates_failures:
  assumes "BatchQRSchema_ok args"
    and "ensureDir_error env (outputDir_or_default (outputDir args)) = None"
  shows "\<exists>out s'. handleGenerateBatch env args s = (Inr out, s')
     \<and> length (results_o out) = length (items args)
     \<and> map index (results_o out) = [0..<length (items args)]
     \<and> (\<forall>k<length (items args).
          results_o out ! k =
            batch_entry k
              (fst (generateStyled env (content_i (items args ! k)) (item_style (items args ! k))
                      (batch_config args)
                      (snd (batch_loop env args 0 (take k (items args)) [] s)))))
     \<and> (\<forall>k<length (items args).
          validateContent (content_i (items args ! k)) \<noteq> None \<longrightarrow>
          \<not> success_e (results_o out ! k))
     \<and> successful out = length (filter success_e (results_o out))
     \<and> failed out = length (filter (\<lambda>e. \<not> success_e e) (results_o out))
     \<and> successful out + failed out = length (items args)"
proof -
  let ?loop = "batch_loop env args 0 (items args) [] s"
  let ?out = "\<lparr> successful = length (filter success_e (fst ?loop)),
                 failed = length (fst ?loop) - length (filter success_e (fst ?loop)),
                 outputDir_o = outputDir_or_default (outputDir args),
                 results_o = fst ?loop \<rparr>"
  have run: "handleGenerateBatch env args s = (Inr ?out, snd ?loop)"
    using assms
    by (simp add: handleGenerateBatch_def io_bind_def ensureDir_def io_throw_def
        split: prod.splits)
  have len: "length (fst ?loop) = length (items args)"
    by (rule batch_loop_length)
  have idx: "map index (fst ?loop) = [0..<length (items args)]"
    using batch_loop_index [of env args 0 "items args" s] by simp
  have nth: "\<forall>k<length (items args).
      fst ?loop ! k =
        batch_entry k
          (fst (generateStyled env (content_i (items args ! k)) (item_style (items args ! k))
                  (batch_config args)
                  (snd (batch_loop env args 0 (take k (items args)) [] s))))"
    using batch_loop_nth [of _ "items args" env args 0 s] by simp
  have inv: "\<forall>k<length (items args).
      validateContent (content_i (items args ! k)) \<noteq> None \<longrightarrow> \<not> success_e (fst ?loop ! k)"
    using nth by (simp add: success_e_batch_entry generateStyled_invalid)
  have cnt: "length (fst ?loop) - length (filter success_e (fst ?loop))
      = length (filter (\<lambda>e. \<not> success_e e) (fst ?loop))"
    using sum_length_filter_compl [of success_e "fst ?loop"] by simp
  have tot: "length (filter success_e (fst ?loop))
      + length (filter (\<lambda>e. \<not> success_e e) (fst ?loop)) = length (items args)"
    using sum_length_filter_compl [of success_e "fst ?loop"] len by simp
  show ?thesis
    using run len idx nth inv cnt tot by simp
qed

theorem handleGenerateBatch_witness:
  "BatchQRSchema_ok test_batch
   \<and> ensureDir_error test_env (outputDir_or_default (outputDir test_batch)) = None
   \<and> (\<exists>out. fst (handleGenerateBatch test_env test_batch test_sys) = Inr out
         \<and> map success_e (results_o out) = [True, False, True]
         \<and> map index (results_o out) = [0, 1, 2]
         \<and> successful out = 2 \<and> failed out = 1)"
proof -
  have ok: "BatchQRSchema_ok test_batch"
    by (simp add: test_batch_def BatchQRSchema_ok_def)
  have dir: "ensureDir_error test_env (outputDir_or_default (outputDir test_batch)) = None"
    by (simp add: test_env_simps)
  have n: "length (items test_batch) = 3"
    by (simp add: test_batch_def)
  from handleGenerateBatch_isolates_failures [OF ok dir, of test_sys]
  obtain out s' where run: "handleGenerateBatch test_env test_batch test_sys = (Inr out, s')"
    and len: "length (results_o out) = length (items test_batch)"
    and idx: "map index (results_o out) = [0..<length (items test_batch)]"
    and nth: "\<forall>k<length (items test_batch).
        results_o out ! k =
          batch_entry k
            (fst (generateStyled test_env (content_i (items test_batch ! k))
                    (item_style (items test_batch ! k)) (batch_config test_batch)
                    (snd (batch_loop test_env test_batch 0 (take k (items test_batch)) []
                            test_sys))))"
    and inv: "\<forall>k<length (items test_batch).
        validateContent (content_i (items test_batch ! k)) \<noteq> None \<longrightarrow>
        \<not> success_e (results_o out ! k)"
    and cnt: "successful out = length (filter success_e (results_o out))"
      "failed out = length (filter (\<lambda>e. \<not> success_e e) (results_o out))"
    by blast
  have nologo: "logoPath no_style = None"
    by (simp add: no_style_def)
  have good: "\<And>content s. validateContent content = None \<Longrightarrow>
      succeeded (fst (generateStyled test_env content no_style (batch_config test_batch) s))"
    by (simp add: generateStyled_test_env [OF _ nologo] succeeded_def)
  from nth n have "results_o out ! 0 =
      batch_entry 0 (fst (generateStyled test_env ''a'' no_style (batch_config test_batch)
        (snd (batch_loop test_env test_batch 0 (take 0 (items test_batch)) [] test_sys))))"
    by (simp add: test_batch_def item_style_def del: batch_loop.simps)
  then have e0: "success_e (results_o out ! 0)"
    by (simp add: success_e_batch_entry good valid_examples del: batch_loop.simps)
  from inv n have e1: "\<not> success_e (results_o out ! 1)"
    by (simp add: test_batch_def validateContent_def)
  from nth n have "results_o out ! 2 =
      batch_entry 2 (fst (generateStyled test_env ''c'' no_style (batch_config test_batch)
        (snd (batch_loop test_env test_batch 0 (take 2 (items test_batch)) [] test_sys))))"
    by (simp add: test_batch_def item_style_def del: batch_loop.simps)
  then have e2: "success_e (results_o out ! 2)"
    by (simp add: success_e_batch_entry good valid_examples del: batch_loop.simps)
  from len n obtain x y z where xs: "results_o out = [x, y, z]"
    by (auto simp: numeral_3_eq_3 length_Suc_conv)
  from xs e0 e1 e2 have flags: "success_e x" "\<not> success_e y" "success_e z"
    by simp_all
  from idx n have "map index (results_o out) = [0, 1, 2]"
    by (simp add: numeral_3_eq_3 upt_rec)
  with ok dir run xs flags cnt show ?thesis
    by simp
qed

subsection \<open>C10: the recorded original content\<close>

text \<open>
  C10. For every styled generation, called directly or through a template (batch
  generation calls it once per item), the returned result's \<open>metadata.originalContent\<close> is
  the literal string \<open>styled content\<close>, whatever the input content; a result returned by
  \<open>generateBasic\<close>, on its PNG and on its SVG path, records the input content itself.
\<close>

theorem originalContent_of_results:
  "(fst (generateStyled env content style config s) = Inr r \<longrightarrow>
      map_option originalContent (metadata r) = Some ''styled content'')
   \<and> (fst (generateFromTemplate env content name os oc s) = Inr r \<longrightarrow>
      map_option originalContent (metadata r) = Some ''styled content'')
   \<and> (fst (generateBasic env content config s) = Inr r \<longrightarrow>
      map_option originalContent (metadata r) = Some content)"
proof (intro conjI impI)
  assume "fst (generateStyled env content style config s) = Inr r"
  then have "generateStyled env content style config s
      = (Inr r, snd (generateStyled env content style config s))"
    by (metis prod.collapse)
  then show "map_option originalContent (metadata r) = Some ''styled content''"
    using timed_returns styled_body_original unfolding generateStyled_timed by blast
next
  assume "fst (generateFromTemplate env content name os oc s) = Inr r"
  then have "generateFromTemplate env content name os oc s
      = (Inr r, snd (generateFromTemplate env content name os oc s))"
    by (metis prod.collapse)
  then obtain t :: QRTemplate and s1 where
    "generateStyled env content (merge_style (style_t t) os) (merge_config (config_t t) oc) s
       = (Inr r, s1)"
    using generateFromTemplate_returns by blast
  then show "map_option originalContent (metadata r) = Some ''styled content''"
    using timed_returns styled_body_original unfolding generateStyled_timed by blast
next
  assume "fst (generateBasic env content config s) = Inr r"
  then have "generateBasic env content config s
      = (Inr r, snd (generateBasic env content config s))"
    by (metis prod.collapse)
  then show "map_option originalContent (metadata r) = Some content"
    using timed_returns basic_body_original unfolding generateBasic_timed by blast
qed

theorem originalContent_witness:
  "(\<exists>r. fst (generateStyled test_env ''hello'' no_style no_config test_sys) = Inr r
        \<and> map_option originalContent (metadata r) = Some ''styled content'')
   \<and> (\<exists>r. fst (generateFromTemplate test_env ''hello'' ''business'' no_style no_config
                 test_sys) = Inr r
        \<and> map_option originalContent (metadata r) = Some ''styled content'')
   \<and> (\<exists>r. fst (generateBasic test_env ''hello'' no_config test_sys) = Inr r
        \<and> map_option originalContent (metadata r) = Some ''hello'')"
proof -
  have nologo: "logoPath no_style = None"
    "logoPath (merge_style (style_t business_template) no_style) = None"
    by (simp_all add: no_style_def merge_style_def business_template_def orElse_def)
  have nosvg: "format_c no_config \<noteq> Some SVG"
    by (simp add: no_config_def)
  have tmpl: "map_of (templates test_sys) ''business'' = Some business_template"
    by (simp add: test_sys_simps initializeDefaultTemplates_def)
  obtain r1 where r1: "fst (generateStyled test_env ''hello'' no_style no_config test_sys) = Inr r1"
    using generateStyled_test_env [OF valid_examples(1) nologo(1)] by blast
  obtain r2 where r2: "fst (generateFromTemplate test_env ''hello'' ''business'' no_style
      no_config test_sys) = Inr r2"
    using generateStyled_test_env [OF valid_examples(1) nologo(2)]
    unfolding generateFromTemplate_fst [OF tmpl] by blast
  obtain r3 where r3: "fst (generateBasic test_env ''hello'' no_config test_sys) = Inr r3"
    using generateBasic_test_env [OF nosvg valid_examples(1)] by blast
  from originalContent_of_results
         [of test_env "''hello''" no_style no_config test_sys r1]
       originalContent_of_results
         [where env = test_env and content = "''hello''" and name = "''business''"
            and os = no_style and oc = no_config and s = test_sys and r = r2]
       originalContent_of_results
         [where env = test_env and content = "''hello''" and config = no_config
            and s = test_sys and r = r3]
       r1 r2 r3
  show ?thesis by simp
qed


end
